theory Spec2Isabelle
  imports Main "HOL-Library.Sublist"
begin

section \<open>Python values used by the Comlink client\<close>

text \<open>
  The client of \<^verbatim>\<open>src/utils/comlink/__init__.py\<close> builds JSON envelopes out of
  Python dictionaries, strings, integers, booleans and \<^verbatim>\<open>None\<close>, serialises
  them with \<^verbatim>\<open>json.dumps\<close> and posts them.  A Python \<^verbatim>\<open>str\<close> is modelled as a
  \<open>string\<close> whose characters are the code points below 256; a \<^verbatim>\<open>bytes\<close> object
  is a \<open>char list\<close> too (an Isabelle \<open>char\<close> is one byte).  A dictionary is an
  association list in insertion order with unique keys, which is the order
  \<^verbatim>\<open>json.dumps\<close> writes.  Floating point numbers do not occur in the envelopes
  the client builds and are left out of the value type.
\<close>

type_synonym bytes = "char list"

datatype json =
    JNull
  | JBool bool
  | JInt int
  | JStr string
  | JList "json list"
  | JObject "(string \<times> json) list"

datatype error =
    KeyError string
  | ValueError string
  | TypeError string
  | AttributeError string
  | AssertionError
  | Raised string

subsection \<open>Dictionaries\<close>

fun dict_get :: "('k \<times> 'v) list \<Rightarrow> 'k \<Rightarrow> 'v option" where
  "dict_get [] k = None"
| "dict_get ((k', v) # kvs) k = (if k' = k then Some v else dict_get kvs k)"

text \<open>\<^verbatim>\<open>d[k] = v\<close>: an existing key keeps its position, a new key goes last.\<close>

fun dict_set :: "('k \<times> 'v) list \<Rightarrow> 'k \<Rightarrow> 'v \<Rightarrow> ('k \<times> 'v) list" where
  "dict_set [] k v = [(k, v)]"
| "dict_set ((k', v') # kvs) k v =
     (if k' = k then (k, v) # kvs else (k', v') # dict_set kvs k v)"

definition dict_keys :: "('k \<times> 'v) list \<Rightarrow> 'k list" where
  "dict_keys kvs = map fst kvs"

text \<open>\<^verbatim>\<open>d[k]\<close> on a dictionary raises \<^verbatim>\<open>KeyError\<close> for a missing key.\<close>

definition dict_item :: "(string \<times> 'v) list \<Rightarrow> string \<Rightarrow> error + 'v" where
  "dict_item kvs k = (case dict_get kvs k of None \<Rightarrow> Inl (KeyError k) | Some v \<Rightarrow> Inr v)"

text \<open>
  \<^verbatim>\<open>obj[k]\<close> with a string key on a decoded JSON value: only a mapping can be
  subscripted with a string.
\<close>

fun subscript :: "json \<Rightarrow> string \<Rightarrow> error + json" where
  "subscript (JObject kvs) k = dict_item kvs k"
| "subscript _ k = Inl (TypeError ''subscript'')"

text \<open>
  \<^verbatim>\<open>payload["payload"][k] = v\<close>: the inner dictionary is looked up and updated in
  place.
\<close>

definition set_inner :: "(string \<times> json) list \<Rightarrow> string \<Rightarrow> json \<Rightarrow> (string \<times> json) list" where
  "set_inner payload k v =
     (case dict_get payload ''payload'' of
        Some (JObject inner) \<Rightarrow> dict_set payload ''payload'' (JObject (dict_set inner k v))
      | _ \<Rightarrow> payload)"

subsection \<open>Truthiness and string conversion\<close>

fun truthy :: "json \<Rightarrow> bool" where
  "truthy JNull = False"
| "truthy (JBool b) = b"
| "truthy (JInt i) = (i \<noteq> 0)"
| "truthy (JStr s) = (s \<noteq> [])"
| "truthy (JList xs) = (xs \<noteq> [])"
| "truthy (JObject kvs) = (kvs \<noteq> [])"

definition digit_char :: "nat \<Rightarrow> char" where
  "digit_char d = char_of (48 + d)"

fun str_nat :: "nat \<Rightarrow> string" where
  "str_nat n = (if n < 10 then [digit_char n] else str_nat (n div 10) @ [digit_char (n mod 10)])"

declare str_nat.simps [simp del]

text \<open>\<^verbatim>\<open>str(i)\<close> of a Python integer.\<close>

definition str_int :: "int \<Rightarrow> string" where
  "str_int i = (if i < 0 then CHR ''-'' # str_nat (nat (- i)) else str_nat (nat i))"

text \<open>\<^verbatim>\<open>s.lower()\<close> on the code points below 256.\<close>

definition lower_char :: "char \<Rightarrow> char" where
  "lower_char c =
     (let n = (of_char c :: nat)
      in if (65 \<le> n \<and> n \<le> 90) \<or> (192 \<le> n \<and> n \<le> 222 \<and> n \<noteq> 215)
         then char_of (n + 32) else c)"

definition lower :: "string \<Rightarrow> string" where
  "lower s = map lower_char s"

text \<open>\<^verbatim>\<open>s.encode()\<close>: UTF-8 of the code points below 256.\<close>

definition encode_char :: "char \<Rightarrow> bytes" where
  "encode_char c =
     (let n = (of_char c :: nat)
      in if n < 128 then [c] else [char_of (192 + n div 64), char_of (128 + n mod 64)])"

definition encode :: "string \<Rightarrow> bytes" where
  "encode s = concat (map encode_char s)"

subsection \<open>\<^verbatim>\<open>json.dumps\<close>\<close>

definition hex_digit :: "nat \<Rightarrow> char" where
  "hex_digit d = (if d < 10 then char_of (48 + d) else char_of (87 + d))"

text \<open>
  One character of \<^verbatim>\<open>py_encode_basestring_ascii\<close> (\<^verbatim>\<open>ensure_ascii=True\<close>, the
  default): the quote and the backslash are escaped, the control characters have
  their short forms, everything outside \<^verbatim>\<open>' '..'~'\<close> is written \<^verbatim>\<open>\u00XX\<close>.
\<close>

definition escape_char :: "char \<Rightarrow> string" where
  "escape_char c =
     (let n = (of_char c :: nat)
      in if n = 34 then [CHR 0x5C, CHR 0x22]
         else if n = 92 then [CHR 0x5C, CHR 0x5C]
         else if n = 10 then [CHR 0x5C, CHR ''n'']
         else if n = 13 then [CHR 0x5C, CHR ''r'']
         else if n = 9 then [CHR 0x5C, CHR ''t'']
         else if n = 8 then [CHR 0x5C, CHR ''b'']
         else if n = 12 then [CHR 0x5C, CHR ''f'']
         else if 32 \<le> n \<and> n \<le> 126 then [c]
         else [CHR 0x5C, CHR ''u'', CHR ''0'', CHR ''0'', hex_digit (n div 16), hex_digit (n mod 16)])"

definition encode_basestring :: "string \<Rightarrow> string" where
  "encode_basestring s = [CHR 0x22] @ concat (map escape_char s) @ [CHR 0x22]"

text \<open>
  \<^verbatim>\<open>json.dumps(obj, separators=(item_sep, key_sep))\<close>.  The empty list and the
  empty dictionary are written \<^verbatim>\<open>[]\<close> and \<^verbatim>\<open>{}\<close> whatever the separators.
\<close>

fun dumps_sep :: "string \<Rightarrow> string \<Rightarrow> json \<Rightarrow> string"
  and dumps_items :: "string \<Rightarrow> string \<Rightarrow> json list \<Rightarrow> string"
  and dumps_members :: "string \<Rightarrow> string \<Rightarrow> (string \<times> json) list \<Rightarrow> string"
where
  "dumps_sep isep ksep JNull = ''null''"
| "dumps_sep isep ksep (JBool b) = (if b then ''true'' else ''false'')"
| "dumps_sep isep ksep (JInt i) = str_int i"
| "dumps_sep isep ksep (JStr s) = encode_basestring s"
| "dumps_sep isep ksep (JList xs) = ''['' @ dumps_items isep ksep xs @ '']''"
| "dumps_sep isep ksep (JObject kvs) = ''{'' @ dumps_members isep ksep kvs @ ''}''"
| "dumps_items isep ksep [] = []"
| "dumps_items isep ksep [x] = dumps_sep isep ksep x"
| "dumps_items isep ksep (x # y # xs) =
     dumps_sep isep ksep x @ isep @ dumps_items isep ksep (y # xs)"
| "dumps_members isep ksep [] = []"
| "dumps_members isep ksep [(k, v)] = encode_basestring k @ ksep @ dumps_sep isep ksep v"
| "dumps_members isep ksep ((k, v) # m # kvs) =
     encode_basestring k @ ksep @ dumps_sep isep ksep v @ isep @ dumps_members isep ksep (m # kvs)"

text \<open>\<^verbatim>\<open>dumps(obj)\<close> with the default separators, and with the compact ones.\<close>

definition dumps :: "json \<Rightarrow> string" where
  "dumps v = dumps_sep '', '' '': '' v"

definition dumps_compact :: "json \<Rightarrow> string" where
  "dumps_compact v = dumps_sep '','' '':'' v"

section \<open>Configuration, platform and state\<close>

text \<open>
  \<^verbatim>\<open>utils/env.py\<close>: the environment variables the client reads from
  \<^verbatim>\<open>bot.config\<close>.
\<close>

record config =
  ACCESS_KEY :: string
  SECRET_KEY :: string
  COMLINK_URL :: string
  STATS_URL :: string
  ENVIRONMENT_MODE :: string

text \<open>The fields of a \<^verbatim>\<open>SwgohComlink\<close> instance; \<open>bot_config\<close> is \<^verbatim>\<open>self.bot.config\<close>.\<close>

record comlink =
  bot_config :: config
  hmac :: bool
  url_base :: string
  stats_url_base :: string

text \<open>\<^verbatim>\<open>SwgohComlink.__init__\<close>: HMAC is used when both keys are non-empty.\<close>

definition SwgohComlink_init :: "config \<Rightarrow> comlink" where
  "SwgohComlink_init cfg =
     \<lparr> bot_config = cfg,
       hmac = (ACCESS_KEY cfg \<noteq> [] \<and> SECRET_KEY cfg \<noteq> []),
       url_base = COMLINK_URL cfg,
       stats_url_base = STATS_URL cfg \<rparr>"

text \<open>
  What \<^verbatim>\<open>self.bot.session.post(post_url, json=payload, headers=req_headers)\<close> and
  \<^verbatim>\<open>self.bot.session.get(url)\<close> hand to the HTTP session.
\<close>

record http_request =
  req_method :: string
  req_url :: string
  req_json :: "json option"
  req_headers :: "(string \<times> string) list"

text \<open>
  The session is the \<^verbatim>\<open>aiohttp.ClientSession()\<close> that \<^verbatim>\<open>bot.py\<close> creates with
  its defaults, so a \<^verbatim>\<open>json=\<close> argument other than \<^verbatim>\<open>None\<close> is serialised by
  the default \<^verbatim>\<open>json_serialize=json.dumps\<close> and encoded as UTF-8; with
  \<^verbatim>\<open>json=None\<close> no body is sent.
\<close>

definition transmitted_body :: "http_request \<Rightarrow> bytes option" where
  "transmitted_body r = map_option (\<lambda>v. encode (dumps v)) (req_json r)"

text \<open>
  The library functions and the outside world the client calls.  The hash
  functions, the archive functions and the server are parameters: every theorem
  below holds for all of them.
  \<^item> \<open>time_ms n\<close> is \<^verbatim>\<open>int(time.time() * 1000)\<close> at the \<open>n\<close>-th reading of the clock;
  \<^item> \<open>hmac_sha256_hexdigest key msg\<close> is the hex digest of HMAC-SHA256;
  \<^item> \<open>md5_hexdigest msg\<close> is \<^verbatim>\<open>hashlib.md5(msg).hexdigest()\<close>;
  \<^item> \<open>respond r\<close> is the decoded JSON of the response to \<open>r\<close>
    (\<^verbatim>\<open>await r.json()\<close>), or the exception the session or the decoder raises;
  \<^item> \<open>b64decode\<close>, \<open>zip_open\<close> (\<^verbatim>\<open>ZipFile(BytesIO(data))\<close>, which raises on a
    malformed archive), \<open>zip_read\<close> (\<^verbatim>\<open>zip_obj.read(name)\<close>) and \<open>utf8_decode\<close> are
    the decoding steps of the localisation bundle;
  \<^item> \<open>dumps_indent_sorted\<close> is \<^verbatim>\<open>json.dumps(d, indent=4, sort_keys=True)\<close>;
  \<^item> \<open>open_file path\<close> is \<^verbatim>\<open>open(path, "w+")\<close>, which creates or truncates the file
    unless it raises, and \<open>write_file path text\<close> is the write to the opened file
    up to its closing: when it raises, it also tells what text reached the file;
  \<^item> \<open>log_write n name level message\<close> is the append of one line to the log file of
    the logger \<open>name\<close> when \<open>n\<close> lines have been logged so far, which can raise
    as any write to a file can;
  \<^item> \<open>coroutine_repr\<close> is the text of a coroutine object that was never awaited;
  \<^item> \<open>user_name\<close> is \<^verbatim>\<open>str(self.user)\<close>.
\<close>

record platform =
  time_ms :: "nat \<Rightarrow> int"
  hmac_sha256_hexdigest :: "bytes \<Rightarrow> bytes \<Rightarrow> string"
  md5_hexdigest :: "bytes \<Rightarrow> string"
  respond :: "http_request \<Rightarrow> error + json"
  b64decode :: "string \<Rightarrow> error + bytes"
  zip_open :: "bytes \<Rightarrow> error + unit"
  zip_read :: "bytes \<Rightarrow> string \<Rightarrow> error + bytes"
  utf8_decode :: "bytes \<Rightarrow> error + string"
  dumps_indent_sorted :: "(string \<times> string) list \<Rightarrow> string"
  open_file :: "string \<Rightarrow> error + unit"
  write_file :: "string \<Rightarrow> string \<Rightarrow> (error \<times> string) + unit"
  log_write :: "nat \<Rightarrow> string \<Rightarrow> string \<Rightarrow> string \<Rightarrow> error + unit"
  coroutine_repr :: string
  user_name :: string

text \<open>
  The mutable state: the requests handed to the session so far (oldest first),
  the number of clock readings, the log (logger name, level, message), the
  client's \<^verbatim>\<open>self.unit_name_map\<close> attribute (\<open>None\<close> until it is assigned), the files
  written, the bot's \<^verbatim>\<open>_is_ready\<close> flag, and the exceptions of event handlers that
  the discord.py event runner has logged and ignored.
\<close>

record state =
  sent :: "http_request list"
  clock_reads :: nat
  log :: "(string \<times> string \<times> string) list"
  self_unit_name_map :: "(string \<times> string) list option"
  files :: "(string \<times> string) list"
  is_ready :: bool
  ignored :: "error list"

type_synonym 'a io = "state \<Rightarrow> (error + 'a) \<times> state"

definition io_return :: "'a \<Rightarrow> 'a io" where
  "io_return x st = (Inr x, st)"

definition io_lift :: "error + 'a \<Rightarrow> 'a io" where
  "io_lift r st = (r, st)"

text \<open>Sequencing: an exception of the first step ends the run with the state it left.\<close>

definition io_bind :: "'a io \<Rightarrow> ('a \<Rightarrow> 'b io) \<Rightarrow> 'b io" where
  "io_bind m f st = (case m st of (Inl e, st') \<Rightarrow> (Inl e, st') | (Inr x, st') \<Rightarrow> f x st')"

text \<open>
  \<^verbatim>\<open>utils/logger.py\<close>: a log call formats the line and appends it to the log file
  (\<^verbatim>\<open>Logger.format\<close>, \<^verbatim>\<open>Logger.to_file\<close>).  The logger has no \<^verbatim>\<open>try\<close>: when the
  write raises, the exception leaves the log call and no entry is added.
\<close>

definition logger :: "platform \<Rightarrow> string \<Rightarrow> string \<Rightarrow> string \<Rightarrow> unit io" where
  "logger p name level message st =
     (case log_write p (length (log st)) name level message of
        Inl e \<Rightarrow> (Inl e, st)
      | Inr u \<Rightarrow> (Inr (), st\<lparr>log := log st @ [(name, level, message)]\<rparr>))"

definition session_post :: "platform \<Rightarrow> http_request \<Rightarrow> json io" where
  "session_post p r st = (respond p r, st\<lparr>sent := sent st @ [r]\<rparr>)"

section \<open>The signed POST\<close>

text \<open>The \<^verbatim>\<open>hmac\<close> object: a key and the bytes fed so far.\<close>

datatype hmac_obj = HmacObj bytes bytes

definition hmac_new :: "bytes \<Rightarrow> hmac_obj" where
  "hmac_new key = HmacObj key []"

fun hmac_update :: "hmac_obj \<Rightarrow> bytes \<Rightarrow> hmac_obj" where
  "hmac_update (HmacObj key msg) data = HmacObj key (msg @ data)"

fun hmac_hexdigest :: "platform \<Rightarrow> hmac_obj \<Rightarrow> string" where
  "hmac_hexdigest p (HmacObj key msg) = hmac_sha256_hexdigest p key msg"

text \<open>An optional string inside an f-string: \<^verbatim>\<open>None\<close> prints as \<^verbatim>\<open>None\<close>.\<close>

definition format_opt :: "string option \<Rightarrow> string" where
  "format_opt s = (case s of None \<Rightarrow> ''None'' | Some t \<Rightarrow> t)"

text \<open>
  Lines 136 to 139 of \<^verbatim>\<open>_post\<close>: the string whose MD5 digest is signed.  An
  absent or empty payload is signed as \<^verbatim>\<open>dumps({})\<close>.
\<close>

definition payload_string :: "json option \<Rightarrow> string" where
  "payload_string payload =
     (case payload of
        None \<Rightarrow> dumps (JObject [])
      | Some v \<Rightarrow> if truthy v then dumps_compact v else dumps (JObject []))"

text \<open>Line 140: \<^verbatim>\<open>payload_string.encode()\<close>, the bytes whose MD5 digest is signed.\<close>

definition signed_body :: "json option \<Rightarrow> bytes" where
  "signed_body payload = encode (payload_string payload)"

text \<open>Lines 125 to 145 of \<^verbatim>\<open>_post\<close>: the headers of a signed request.\<close>

definition signed_headers ::
  "platform \<Rightarrow> comlink \<Rightarrow> int \<Rightarrow> string option \<Rightarrow> json option \<Rightarrow> (string \<times> string) list" where
  "signed_headers p c now endpoint payload =
     (let req_time = str_int now;
          req_headers = [(''X-Date'', req_time)];
          hmac_obj = hmac_new (encode (SECRET_KEY (bot_config c)));
          hmac_obj = hmac_update hmac_obj (encode req_time);
          hmac_obj = hmac_update hmac_obj ''POST'';
          hmac_obj = hmac_update hmac_obj (encode (''/'' @ format_opt endpoint));
          payload_hash_digest = md5_hexdigest p (signed_body payload);
          hmac_obj = hmac_update hmac_obj (encode payload_hash_digest);
          hmac_digest = hmac_hexdigest p hmac_obj
      in dict_set req_headers ''Authorization''
           (''HMAC-SHA256 Credential='' @ ACCESS_KEY (bot_config c) @ '',Signature='' @ hmac_digest))"

text \<open>
  \<^verbatim>\<open>SwgohComlink._post\<close>.  The \<^verbatim>\<open>assert\<close> raises when a key is empty; the
  exception of the session or of the decoder is raised again as it is.
\<close>

definition post :: "platform \<Rightarrow> comlink \<Rightarrow> string option \<Rightarrow> string option \<Rightarrow> json option \<Rightarrow> json io" where
  "post p c url_base_arg endpoint payload st =
     (let base = (case url_base_arg of None \<Rightarrow> url_base c
                  | Some u \<Rightarrow> if u = [] then url_base c else u);
          post_url = base @ ''/'' @ format_opt endpoint
      in if hmac c then
           (if SECRET_KEY (bot_config c) \<noteq> [] \<and> ACCESS_KEY (bot_config c) \<noteq> [] then
              session_post p
                \<lparr> req_method = ''POST'', req_url = post_url, req_json = payload,
                  req_headers = signed_headers p c (time_ms p (clock_reads st)) endpoint payload \<rparr>
                (st\<lparr>clock_reads := Suc (clock_reads st)\<rparr>)
            else (Inl AssertionError, st))
         else
           session_post p
             \<lparr> req_method = ''POST'', req_url = post_url, req_json = payload, req_headers = [] \<rparr>
             st)"

text \<open>
  The request a call of \<^verbatim>\<open>_post\<close> on a client made by \<^verbatim>\<open>__init__\<close> hands to the
  session, written out; \<open>post_effect\<close> below proves that it is that request.
\<close>

definition the_request ::
  "platform \<Rightarrow> config \<Rightarrow> string option \<Rightarrow> string option \<Rightarrow> json option \<Rightarrow> state \<Rightarrow> http_request" where
  "the_request p cfg u e pl st =
     \<lparr> req_method = ''POST'',
       req_url = (case u of None \<Rightarrow> COMLINK_URL cfg
                  | Some b \<Rightarrow> if b = [] then COMLINK_URL cfg else b) @ ''/'' @ format_opt e,
       req_json = pl,
       req_headers =
         (if ACCESS_KEY cfg \<noteq> [] \<and> SECRET_KEY cfg \<noteq> []
          then signed_headers p (SwgohComlink_init cfg) (time_ms p (clock_reads st)) e pl
          else []) \<rparr>"

section \<open>Payload builders and operations\<close>

text \<open>An argument typed \<^verbatim>\<open>str | int\<close>.\<close>

datatype str_or_int = PStr string | PInt int

fun truthy_arg :: "str_or_int option \<Rightarrow> bool" where
  "truthy_arg None = False"
| "truthy_arg (Some (PStr s)) = (s \<noteq> [])"
| "truthy_arg (Some (PInt i)) = (i \<noteq> 0)"

text \<open>The argument inside an f-string.\<close>

fun format_arg :: "str_or_int option \<Rightarrow> string" where
  "format_arg None = ''None''"
| "format_arg (Some (PStr s)) = s"
| "format_arg (Some (PInt i)) = str_int i"

fun json_of_arg :: "str_or_int option \<Rightarrow> json" where
  "json_of_arg None = JNull"
| "json_of_arg (Some (PStr s)) = JStr s"
| "json_of_arg (Some (PInt i)) = JInt i"

text \<open>Truth value of an argument typed \<^verbatim>\<open>Optional[str]\<close>.\<close>

definition truthy_opt :: "string option \<Rightarrow> bool" where
  "truthy_opt s = (case s of None \<Rightarrow> False | Some t \<Rightarrow> t \<noteq> [])"

definition json_of_opt :: "string option \<Rightarrow> json" where
  "json_of_opt s = (case s of None \<Rightarrow> JNull | Some t \<Rightarrow> JStr t)"

text \<open>
  \<^verbatim>\<open>_get_player_payload\<close>: the branch condition is
  \<^verbatim>\<open>not allycode and player_id\<close>.
\<close>

definition get_player_payload :: "str_or_int option \<Rightarrow> string option \<Rightarrow> bool \<Rightarrow> (string \<times> json) list" where
  "get_player_payload allycode player_id enums =
     (let payload = [(''payload'', JObject []), (''enums'', JBool enums)]
      in if \<not> truthy_arg allycode \<and> truthy_opt player_id
         then set_inner payload ''playerId'' (JStr (format_opt player_id))
         else set_inner payload ''allyCode'' (JStr (format_arg allycode)))"

text \<open>
  How the caller passes a parameter that has a default: not at all, by position
  or by keyword.
\<close>

datatype 'a passed = NotPassed | Positional 'a | Keyword 'a

text \<open>
  The \<^verbatim>\<open>param_alias\<close> decorator for a boolean parameter whose default is
  \<^verbatim>\<open>False\<close> (both decorated parameters are such).  The wrapper looks the alias up
  among the keyword arguments.  A truthy alias is stored under the parameter's
  name and deleted: it replaces a value passed by keyword, and with a value
  passed by position the call of the wrapped function raises \<^verbatim>\<open>TypeError\<close>
  (two values for one parameter).  An alias given with a falsy value stays among
  the keyword arguments, and the call raises \<^verbatim>\<open>TypeError\<close> (unexpected keyword).
\<close>

definition param_alias :: "bool passed \<Rightarrow> bool option \<Rightarrow> error + bool" where
  "param_alias param alias =
     (case alias of
        None \<Rightarrow> Inr (case param of NotPassed \<Rightarrow> False | Positional v \<Rightarrow> v | Keyword v \<Rightarrow> v)
      | Some a \<Rightarrow>
          if a then
            (case param of
               Positional v \<Rightarrow> Inl (TypeError ''multiple values for argument'')
             | _ \<Rightarrow> Inr a)
          else Inl (TypeError ''unexpected keyword argument''))"

text \<open>\<^verbatim>\<open>sep.join(xs)\<close>.\<close>

fun join :: "string \<Rightarrow> string list \<Rightarrow> string" where
  "join sep [] = []"
| "join sep [x] = x"
| "join sep (x # y # xs) = x @ sep @ join sep (y # xs)"

text \<open>\<^verbatim>\<open>get_unit_stats\<close>: the caller's payload goes to the stats service as it is.\<close>

definition get_unit_stats ::
  "platform \<Rightarrow> comlink \<Rightarrow> json \<Rightarrow> string list option \<Rightarrow> string option \<Rightarrow> json io" where
  "get_unit_stats p c request_payload flags language =
     (let flags_str = (case flags of None \<Rightarrow> []
                       | Some fs \<Rightarrow> if fs \<noteq> [] then ''flags='' @ join '','' fs else []);
          language = (if truthy_opt language then Some (''language='' @ format_opt language)
                      else language);
          query_string =
            (if flags_str \<noteq> [] \<or> truthy_opt language
             then Some (''?'' @ join ''&''
                    (List.map_filter (\<lambda>x. if truthy_opt x then x else None)
                       [Some flags_str, language]))
             else None);
          endpoint_string =
            (if truthy_opt query_string then ''api'' @ format_opt query_string else ''api'')
      in post p c (Some (stats_url_base c)) (Some endpoint_string) (Some request_payload))"

text \<open>\<^verbatim>\<open>get_enums\<close>: a GET without body and without headers.\<close>

definition get_enums :: "platform \<Rightarrow> comlink \<Rightarrow> json io" where
  "get_enums p c =
     session_post p
       \<lparr> req_method = ''GET'', req_url = url_base c @ ''/enums'', req_json = None,
         req_headers = [] \<rparr>"

definition get_events :: "platform \<Rightarrow> comlink \<Rightarrow> bool \<Rightarrow> json io" where
  "get_events p c enums =
     post p c None (Some ''getEvents'')
       (Some (JObject [(''payload'', JObject []), (''enums'', JBool enums)]))"

text \<open>
  \<^verbatim>\<open>get_game_data\<close>: with an empty \<^verbatim>\<open>version\<close> the source calls
  \<^verbatim>\<open>self._get_game_version()\<close> without awaiting it, so no request is made and the
  version string is the text of the coroutine object.
\<close>

definition get_game_data ::
  "platform \<Rightarrow> comlink \<Rightarrow> string \<Rightarrow> bool \<Rightarrow> int \<Rightarrow> bool \<Rightarrow> json io" where
  "get_game_data p c version include_pve_units request_segment enums =
     (let game_version = (if version = [] then coroutine_repr p else version)
      in post p c None (Some ''data'')
           (Some (JObject
              [(''payload'', JObject
                  [(''version'', JStr game_version),
                   (''includePveUnits'', JBool include_pve_units),
                   (''requestSegment'', JInt request_segment)]),
               (''enums'', JBool enums)])))"

definition get_game_metadata ::
  "platform \<Rightarrow> comlink \<Rightarrow> (string \<times> json) list \<Rightarrow> bool \<Rightarrow> json io" where
  "get_game_metadata p c client_specs enums =
     (let payload =
            (if client_specs \<noteq> []
             then [(''payload'', JObject [(''client_specs'', JObject client_specs)]),
                   (''enums'', JBool enums)]
             else [])
      in post p c None (Some ''metadata'') (Some (JObject payload)))"

text \<open>
  \<^verbatim>\<open>get_latest_game_data_version\<close> calls the alias \<^verbatim>\<open>get_metadata\<close> with its
  defaults (\<^verbatim>\<open>client_specs={}\<close>, \<^verbatim>\<open>enums=False\<close>).
\<close>

definition get_latest_game_data_version :: "platform \<Rightarrow> comlink \<Rightarrow> json io" where
  "get_latest_game_data_version p c =
     io_bind (get_game_metadata p c [] False) (\<lambda>current_metadata.
     io_bind (io_lift (subscript current_metadata ''latestGamedataVersion'')) (\<lambda>game.
     io_bind (io_lift (subscript current_metadata ''latestLocalizationBundleVersion'')) (\<lambda>language.
     io_return (JObject [(''game'', game), (''language'', language)]))))"

text \<open>
  \<^verbatim>\<open>get_localization\<close>; the argument \<^verbatim>\<open>id\<close> is written \<open>id'\<close>, and is \<open>JNull\<close>
  for \<^verbatim>\<open>None\<close>.
\<close>

definition get_localization :: "platform \<Rightarrow> comlink \<Rightarrow> json \<Rightarrow> bool \<Rightarrow> bool \<Rightarrow> json io" where
  "get_localization p c id' unzip enums =
     io_bind
       (if \<not> truthy id'
        then io_bind (get_latest_game_data_version p c) (\<lambda>current_game_version.
               io_lift (subscript current_game_version ''language''))
        else io_return id')
       (\<lambda>id'. post p c None (Some ''localization'')
                (Some (JObject
                   [(''unzip'', JBool unzip), (''enums'', JBool enums),
                    (''payload'', JObject [(''id'', id')])])))"

text \<open>
  \<^verbatim>\<open>Player\<close> is a \<^verbatim>\<open>TypedDict\<close>: at run time \<^verbatim>\<open>Player(**data)\<close> is
  \<^verbatim>\<open>dict(**data)\<close>, which copies a mapping and checks no key; unpacking anything
  but a mapping raises \<^verbatim>\<open>TypeError\<close>.
\<close>

fun Player :: "json \<Rightarrow> error + json" where
  "Player (JObject kvs) = Inr (JObject kvs)"
| "Player _ = Inl (TypeError ''argument after ** must be a mapping'')"

text \<open>The keys the \<^verbatim>\<open>Player\<close> class of \<^verbatim>\<open>types/player/__init__.py\<close> declares.\<close>

definition Player_keys :: "string list" where
  "Player_keys =
     [''rosterUnit'', ''profileStat'', ''pvpProfile'', ''unlockedPlayerTitle'',
      ''unlockedPlayerPortrait'', ''seasonStatus'', ''datacron'', ''name'', ''level'',
      ''allyCode'', ''playerId'', ''guildId'', ''guildName'', ''guildLogoBackground'',
      ''guildBannerColor'', ''guildBannerLogo'', ''selectedPlayerTitle'', ''guildTypeId'',
      ''localTimeZoneOffsetMinutes'', ''lastActivityTime'', ''selectedPlayerPortrait'',
      ''lifetimeSeasonScore'', ''playerRating'']"

definition get_player ::
  "platform \<Rightarrow> comlink \<Rightarrow> str_or_int option \<Rightarrow> string option \<Rightarrow> bool \<Rightarrow> json io" where
  "get_player p c allycode player_id enums =
     (let payload = get_player_payload allycode player_id enums
      in io_bind (post p c None (Some ''player'') (Some (JObject payload))) (\<lambda>data.
         io_lift (Player data)))"

definition get_player_arena ::
  "platform \<Rightarrow> comlink \<Rightarrow> str_or_int option \<Rightarrow> string option \<Rightarrow> bool passed \<Rightarrow> bool option
    \<Rightarrow> bool \<Rightarrow> json io" where
  "get_player_arena p c allycode player_id player_details_only playerDetailsOnly enums =
     io_bind (io_lift (param_alias player_details_only playerDetailsOnly)) (\<lambda>player_details_only.
       let payload = get_player_payload allycode player_id enums;
           payload = set_inner payload ''playerDetailsOnly'' (JBool player_details_only)
       in post p c None (Some ''playerArena'') (Some (JObject payload)))"

text \<open>
  \<^verbatim>\<open>get_guild\<close>: \<^verbatim>\<open>guild.keys()\<close> exists only on a mapping.
\<close>

fun unwrap_guild :: "json \<Rightarrow> error + json" where
  "unwrap_guild (JObject kvs) =
     (if ''guild'' \<in> set (dict_keys kvs) then dict_item kvs ''guild'' else Inr (JObject kvs))"
| "unwrap_guild _ = Inl (AttributeError ''keys'')"

definition get_guild ::
  "platform \<Rightarrow> comlink \<Rightarrow> string \<Rightarrow> bool passed \<Rightarrow> bool option \<Rightarrow> bool \<Rightarrow> json io" where
  "get_guild p c guild_id include_recent_guild_activity_info includeRecent enums =
     io_bind (io_lift (param_alias include_recent_guild_activity_info includeRecent))
       (\<lambda>include_recent_guild_activity_info.
       let payload =
             [(''payload'', JObject
                 [(''guildId'', JStr guild_id),
                  (''includeRecentGuildActivityInfo'', JBool include_recent_guild_activity_info)]),
              (''enums'', JBool enums)]
       in io_bind (post p c None (Some ''guild'') (Some (JObject payload))) (\<lambda>guild.
          io_lift (unwrap_guild guild)))"

definition get_guilds_by_name ::
  "platform \<Rightarrow> comlink \<Rightarrow> string \<Rightarrow> int \<Rightarrow> int \<Rightarrow> bool \<Rightarrow> json io" where
  "get_guilds_by_name p c name start_index count enums =
     post p c None (Some ''getGuilds'')
       (Some (JObject
          [(''payload'', JObject
              [(''name'', JStr name), (''filterType'', JInt 4),
               (''startIndex'', JInt start_index), (''count'', JInt count)]),
           (''enums'', JBool enums)]))"

definition get_guilds_by_criteria ::
  "platform \<Rightarrow> comlink \<Rightarrow> (string \<times> json) list \<Rightarrow> int \<Rightarrow> int \<Rightarrow> bool \<Rightarrow> json io" where
  "get_guilds_by_criteria p c search_criteria start_index count enums =
     post p c None (Some ''getGuilds'')
       (Some (JObject
          [(''payload'', JObject
              [(''searchCriteria'', JObject search_criteria), (''filterType'', JInt 5),
               (''startIndex'', JInt start_index), (''count'', JInt count)]),
           (''enums'', JBool enums)]))"

subsection \<open>The leaderboard request\<close>

definition leagues :: "(string \<times> int) list" where
  "leagues = [(''kyber'', 100), (''aurodium'', 80), (''chromium'', 60), (''bronzium'', 40),
              (''carbonite'', 20)]"

definition divisions :: "(string \<times> int) list" where
  "divisions = [(''1'', 25), (''2'', 20), (''3'', 15), (''4'', 10), (''5'', 5)]"

definition result_bind :: "error + 'a \<Rightarrow> ('a \<Rightarrow> error + 'b) \<Rightarrow> error + 'b" where
  "result_bind r f = (case r of Inl e \<Rightarrow> Inl e | Inr x \<Rightarrow> f x)"

text \<open>Line 482 and 483: \<^verbatim>\<open>if isinstance(league, str): league = leagues[league.lower()]\<close>.\<close>

fun translate_league :: "str_or_int option \<Rightarrow> error + str_or_int option" where
  "translate_league (Some (PStr s)) =
     result_bind (dict_item leagues (lower s)) (\<lambda>n. Inr (Some (PInt n)))"
| "translate_league league = Inr league"

text \<open>
  Lines 484 to 487: an integer whose decimal text has one character is looked
  up by that text, then a string is looked up in lower case.
\<close>

fun translate_division_int :: "str_or_int option \<Rightarrow> error + str_or_int option" where
  "translate_division_int (Some (PInt i)) =
     (if length (str_int i) = 1
      then result_bind (dict_item divisions (lower (str_int i))) (\<lambda>n. Inr (Some (PInt n)))
      else Inr (Some (PInt i)))"
| "translate_division_int division = Inr division"

fun translate_division_str :: "str_or_int option \<Rightarrow> error + str_or_int option" where
  "translate_division_str (Some (PStr s)) =
     result_bind (dict_item divisions (lower s)) (\<lambda>n. Inr (Some (PInt n)))"
| "translate_division_str division = Inr division"

definition translate_division :: "str_or_int option \<Rightarrow> error + str_or_int option" where
  "translate_division division = result_bind (translate_division_int division) translate_division_str"

definition leaderboard_payload ::
  "int \<Rightarrow> str_or_int option \<Rightarrow> str_or_int option \<Rightarrow> string option \<Rightarrow> string option \<Rightarrow> bool
    \<Rightarrow> (string \<times> json) list" where
  "leaderboard_payload leaderboard_type league division event_instance_id group_id enums =
     (let payload = [(''payload'', JObject [(''leaderboardType'', JInt leaderboard_type)]),
                     (''enums'', JBool enums)]
      in if leaderboard_type = 4 then
           set_inner (set_inner payload ''eventInstanceId'' (json_of_opt event_instance_id))
             ''groupId'' (json_of_opt group_id)
         else if leaderboard_type = 6 then
           set_inner (set_inner payload ''league'' (json_of_arg league))
             ''division'' (json_of_arg division)
         else payload)"

text \<open>\<^verbatim>\<open>get_leaderboard\<close>: translation, payload, dispatch, in the source's order.\<close>

definition get_leaderboard ::
  "platform \<Rightarrow> comlink \<Rightarrow> int \<Rightarrow> str_or_int option \<Rightarrow> str_or_int option \<Rightarrow> string option
    \<Rightarrow> string option \<Rightarrow> bool \<Rightarrow> json io" where
  "get_leaderboard p c leaderboard_type league division event_instance_id group_id enums =
     io_bind (io_lift (translate_league league)) (\<lambda>league.
     io_bind (io_lift (translate_division division)) (\<lambda>division.
       post p c None (Some ''getLeaderboard'')
         (Some (JObject
            (leaderboard_payload leaderboard_type league division event_instance_id group_id
               enums)))))"

definition get_guild_leaderboard ::
  "platform \<Rightarrow> comlink \<Rightarrow> json list \<Rightarrow> int \<Rightarrow> bool \<Rightarrow> json io" where
  "get_guild_leaderboard p c leaderboard_id count enums =
     post p c None (Some ''getGuildLeaderboard'')
       (Some (JObject
          [(''payload'', JObject [(''leaderboardId'', JList leaderboard_id), (''count'', JInt count)]),
           (''enums'', JBool enums)]))"

section \<open>The localisation pipeline\<close>

text \<open>\<^verbatim>\<open>s.split(sep)\<close> for a separator of one character: never the empty list.\<close>

fun split_char :: "char \<Rightarrow> string \<Rightarrow> string list" where
  "split_char sep [] = [[]]"
| "split_char sep (c # cs) =
     (if c = sep then [] # split_char sep cs
      else (case split_char sep cs of
              [] \<Rightarrow> [[c]]
            | w # ws \<Rightarrow> (c # w) # ws))"

definition rstrip :: "char \<Rightarrow> string \<Rightarrow> string" where
  "rstrip c s = rev (dropWhile (\<lambda>x. x = c) (rev s))"

definition startswith :: "string \<Rightarrow> string \<Rightarrow> bool" where
  "startswith s pre = (take (length pre) s = pre)"

definition endswith :: "string \<Rightarrow> string \<Rightarrow> bool" where
  "endswith s suf = (drop (length s - length suf) s = suf)"

text \<open>
  The body of the loop over the lines (lines 576 to 587).  The two targets of
  \<^verbatim>\<open>name_key, desc = line.split("|")\<close> need exactly two parts: any other number
  raises \<^verbatim>\<open>ValueError\<close>.
\<close>

definition parse_line :: "(string \<times> string) list \<Rightarrow> string \<Rightarrow> error + (string \<times> string) list" where
  "parse_line unit_name_map line =
     (let line = rstrip (CHR 0x0A) line
      in if startswith line ''#'' then Inr unit_name_map
         else if CHR ''|'' \<notin> set line then Inr unit_name_map
         else if startswith line ''UNIT_'' then
           (case split_char (CHR ''|'') line of
              [name_key, desc] \<Rightarrow>
                if endswith name_key ''_NAME''
                then Inr (dict_set unit_name_map name_key desc)
                else Inr unit_name_map
            | _ \<Rightarrow> Inl (ValueError ''unpack''))
         else Inr unit_name_map)"

fun parse_lines :: "(string \<times> string) list \<Rightarrow> string list \<Rightarrow> error + (string \<times> string) list" where
  "parse_lines unit_name_map [] = Inr unit_name_map"
| "parse_lines unit_name_map (line # lines) =
     (case parse_line unit_name_map line of
        Inl e \<Rightarrow> Inl e
      | Inr m \<Rightarrow> parse_lines m lines)"

text \<open>Lines 574 to 587: the dictionary built from the decoded text.\<close>

definition parse_locale :: "string \<Rightarrow> error + (string \<times> string) list" where
  "parse_locale locale = parse_lines [] (split_char (CHR 0x0A) locale)"

text \<open>\<^verbatim>\<open>base64.b64decode\<close> takes a string (or bytes); anything else is a \<^verbatim>\<open>TypeError\<close>.\<close>

fun b64decode_value :: "platform \<Rightarrow> json \<Rightarrow> error + bytes" where
  "b64decode_value p (JStr s) = b64decode p s"
| "b64decode_value p _ = Inl (TypeError ''b64decode'')"

definition set_unit_name_map :: "(string \<times> string) list \<Rightarrow> unit io" where
  "set_unit_name_map m st = (Inr (), st\<lparr>self_unit_name_map := Some m\<rparr>)"

text \<open>
  \<^verbatim>\<open>with open(path, "w+") as f: f.write(content)\<close>.  When the opening raises, the
  file is as it was; once it is opened, the file is created or truncated, and
  when the write raises it holds what reached it.
\<close>

definition save_file :: "platform \<Rightarrow> string \<Rightarrow> string \<Rightarrow> unit io" where
  "save_file p path content st =
     (case open_file p path of
        Inl e \<Rightarrow> (Inl e, st)
      | Inr u \<Rightarrow>
          (case write_file p path content of
             Inl (e, reached) \<Rightarrow> (Inl e, st\<lparr>files := dict_set (files st) path reached\<rparr>)
           | Inr u \<Rightarrow> (Inr (), st\<lparr>files := dict_set (files st) path content\<rparr>)))"

text \<open>
  \<^verbatim>\<open>create_localised_unit_name_dictionary\<close>.  There is no \<^verbatim>\<open>try\<close> in it: the
  exception of any step leaves the function.
\<close>

definition create_localised_unit_name_dictionary :: "platform \<Rightarrow> comlink \<Rightarrow> unit io" where
  "create_localised_unit_name_dictionary p c =
     io_bind (logger p ''Comlink'' ''debug'' ''Creating localisation dictionary...'') (\<lambda>_.
     io_bind (get_latest_game_data_version p c) (\<lambda>game_data_versions.
     io_bind (io_lift (subscript game_data_versions ''language'')) (\<lambda>language.
     io_bind (get_localization p c language False False) (\<lambda>bundle.
     io_bind (logger p ''Comlink'' ''debug'' ''Localisation bundle retrieved.'') (\<lambda>_.
     io_bind (io_lift (subscript bundle ''localizationBundle'')) (\<lambda>encoded.
     io_bind (io_lift (b64decode_value p encoded)) (\<lambda>decoded_bundle.
     io_bind (logger p ''Comlink'' ''debug'' ''Localisation bundle decoded.'') (\<lambda>_.
     io_bind (io_lift (zip_open p decoded_bundle)) (\<lambda>_.
     io_bind (logger p ''Comlink'' ''debug'' ''Localisation bundle unzipped.'') (\<lambda>_.
     io_bind (io_lift (zip_read p decoded_bundle ''Loc_ENG_US.txt'')) (\<lambda>eng_obj.
     io_bind (logger p ''Comlink'' ''debug'' ''Localisation bundle read.'') (\<lambda>_.
     io_bind (io_lift (utf8_decode p eng_obj)) (\<lambda>locale.
     io_bind (logger p ''Comlink'' ''debug'' ''Localisation bundle decoded to utf-8.'') (\<lambda>_.
     io_bind (io_lift (parse_locale locale)) (\<lambda>unit_name_map.
     io_bind (logger p ''Comlink'' ''debug'' ''Localisation dictionary created.'') (\<lambda>_.
     io_bind (set_unit_name_map unit_name_map) (\<lambda>_.
     io_bind (save_file p ''assets/localisation/en-US.json'' (dumps_indent_sorted p unit_name_map)) (\<lambda>_.
     logger p ''Comlink'' ''info'' ''Localisation dictionary created and saved to file.''
     ))))))))))))))))))"



section \<open>The client's operations as one interface\<close>

text \<open>
  One constructor per public operation of \<^verbatim>\<open>SwgohComlink\<close> with its arguments
  (the aliases of the source name the same methods), and the call of each.
\<close>

datatype operation =
    is_GetUnitStats: GetUnitStats json "string list option" "string option"
  | GetEnums
  | GetEvents bool
  | GetGameData string bool int bool
  | GetLocalization json bool bool
  | GetGameMetadata "(string \<times> json) list" bool
  | GetPlayer "str_or_int option" "string option" bool
  | GetPlayerArena "str_or_int option" "string option" "bool passed" "bool option" bool
  | GetGuild string "bool passed" "bool option" bool
  | GetGuildsByName string int int bool
  | GetGuildsByCriteria "(string \<times> json) list" int int bool
  | GetLeaderboard int "str_or_int option" "str_or_int option" "string option" "string option" bool
  | GetGuildLeaderboard "json list" int bool
  | GetLatestGameDataVersion
  | CreateLocalisedUnitNameDictionary

fun call :: "platform \<Rightarrow> comlink \<Rightarrow> operation \<Rightarrow> json io" where
  "call p c (GetUnitStats request_payload flags language) =
     get_unit_stats p c request_payload flags language"
| "call p c GetEnums = get_enums p c"
| "call p c (GetEvents enums) = get_events p c enums"
| "call p c (GetGameData version include_pve_units request_segment enums) =
     get_game_data p c version include_pve_units request_segment enums"
| "call p c (GetLocalization id' unzip enums) = get_localization p c id' unzip enums"
| "call p c (GetGameMetadata client_specs enums) = get_game_metadata p c client_specs enums"
| "call p c (GetPlayer allycode player_id enums) = get_player p c allycode player_id enums"
| "call p c (GetPlayerArena allycode player_id player_details_only playerDetailsOnly enums) =
     get_player_arena p c allycode player_id player_details_only playerDetailsOnly enums"
| "call p c (GetGuild guild_id include_recent_guild_activity_info includeRecent enums) =
     get_guild p c guild_id include_recent_guild_activity_info includeRecent enums"
| "call p c (GetGuildsByName name start_index count enums) =
     get_guilds_by_name p c name start_index count enums"
| "call p c (GetGuildsByCriteria search_criteria start_index count enums) =
     get_guilds_by_criteria p c search_criteria start_index count enums"
| "call p c (GetLeaderboard leaderboard_type league division event_instance_id group_id enums) =
     get_leaderboard p c leaderboard_type league division event_instance_id group_id enums"
| "call p c (GetGuildLeaderboard leaderboard_id count enums) =
     get_guild_leaderboard p c leaderboard_id count enums"
| "call p c GetLatestGameDataVersion = get_latest_game_data_version p c"
| "call p c CreateLocalisedUnitNameDictionary =
     io_bind (create_localised_unit_name_dictionary p c) (\<lambda>_. io_return JNull)"

text \<open>The requests an action hands to the session, oldest first.\<close>

definition new_requests :: "'a io \<Rightarrow> state \<Rightarrow> http_request list" where
  "new_requests m st = drop (length (sent st)) (sent (snd (m st)))"

text \<open>The envelope of a request is a mapping with the key \<^verbatim>\<open>payload\<close>.\<close>

definition has_payload_key :: "http_request \<Rightarrow> bool" where
  "has_payload_key r =
     (case req_json r of
        Some (JObject envelope) \<Rightarrow> ''payload'' \<in> set (dict_keys envelope)
      | _ \<Rightarrow> False)"

text \<open>The log entries of level \<^verbatim>\<open>warning\<close>.\<close>

definition warnings :: "state \<Rightarrow> (string \<times> string \<times> string) list" where
  "warnings st = filter (\<lambda>entry. fst (snd entry) = ''warning'') (log st)"

text \<open>
  The body the session transmits holds the key \<^verbatim>\<open>payload\<close> as a JSON string.
\<close>

definition serialised_has_payload_key :: "http_request \<Rightarrow> bool" where
  "serialised_has_payload_key r =
     (case transmitted_body r of
        Some b \<Rightarrow> sublist (encode (encode_basestring ''payload'')) b
      | None \<Rightarrow> False)"


subsection \<open>Frame conditions\<close>


definition sends_only :: "(http_request \<Rightarrow> bool) \<Rightarrow> 'a io \<Rightarrow> bool" where
  "sends_only Q m = (\<forall>st. \<exists>new. sent (snd (m st)) = sent st @ new \<and> list_all Q new)"



subsection \<open>The shapes of the requests\<close>

text \<open>
  A POST whose envelope is a mapping with the key \<^verbatim>\<open>payload\<close>, which the
  transmitted body shows.
\<close>

definition payload_request :: "http_request \<Rightarrow> bool" where
  "payload_request r =
     (req_method r = ''POST'' \<and> has_payload_key r \<and> serialised_has_payload_key r)"

text \<open>
  The request \<^verbatim>\<open>get_game_metadata\<close> builds when it is given no client specs: a
  POST to the metadata endpoint whose envelope is the empty mapping.
\<close>

definition default_metadata_request :: "comlink \<Rightarrow> http_request \<Rightarrow> bool" where
  "default_metadata_request c r =
     (req_method r = ''POST'' \<and> req_url r = url_base c @ ''/metadata'' \<and>
      req_json r = Some (JObject []) \<and> transmitted_body r = Some ''{}'')"

text \<open>
  The operations that call \<^verbatim>\<open>get_game_metadata\<close> without client specs: the
  metadata fetch itself when it is given none, the version lookup, the
  localisation fetch when it is given no id, and the pipeline.
\<close>

fun fetches_default_metadata :: "operation \<Rightarrow> bool" where
  "fetches_default_metadata (GetGameMetadata client_specs enums) = (client_specs = [])"
| "fetches_default_metadata GetLatestGameDataVersion = True"
| "fetches_default_metadata (GetLocalization id' unzip enums) = (\<not> truthy id')"
| "fetches_default_metadata CreateLocalisedUnitNameDictionary = True"
| "fetches_default_metadata _ = False"

section \<open>Concrete instances\<close>

text \<open>
  A configuration with both keys, a platform whose hash functions are
  placeholders (the key followed by the message, and the message itself), whose
  decoders are identities, whose files and log can always be written and whose
  server answers the metadata, the guild and the localisation requests with small
  documents and every other request with the empty mapping; a platform whose
  server is unreachable; and the state of a process that has just started.
\<close>

definition example_config :: config where
  "example_config =
     \<lparr> ACCESS_KEY = ''ak'', SECRET_KEY = ''sk'', COMLINK_URL = ''http://localhost:3000'',
       STATS_URL = ''http://localhost:3223'', ENVIRONMENT_MODE = ''DEV'' \<rparr>"

definition example_platform :: platform where
  "example_platform =
     \<lparr> time_ms = (\<lambda>n. 7),
       hmac_sha256_hexdigest = (\<lambda>key msg. key @ msg),
       md5_hexdigest = (\<lambda>msg. msg),
       respond = (\<lambda>r.
         if req_url r = ''http://localhost:3000/metadata''
         then Inr (JObject [(''latestGamedataVersion'', JStr ''1.2.3''),
                            (''latestLocalizationBundleVersion'', JStr ''en_v9'')])
         else if req_url r = ''http://localhost:3000/localization''
         then Inr (JObject [(''localizationBundle'', JStr ''UNIT_REYNOLDS_NAME|Rey'')])
         else if req_url r = ''http://localhost:3000/guild''
         then Inr (JObject [(''guild'', JObject [(''name'', JStr ''Chiss'')])])
         else Inr (JObject [])),
       b64decode = (\<lambda>s. Inr s),
       zip_open = (\<lambda>data. Inr ()),
       zip_read = (\<lambda>data name. Inr data),
       utf8_decode = (\<lambda>data. Inr data),
       dumps_indent_sorted = (\<lambda>m. concat (map (\<lambda>kv. fst kv @ snd kv) m)),
       open_file = (\<lambda>path. Inr ()),
       write_file = (\<lambda>path content. Inr ()),
       log_write = (\<lambda>n name level message. Inr ()),
       coroutine_repr = ''<coroutine object>'',
       user_name = ''bot#0001'' \<rparr>"

definition offline_platform :: platform where
  "offline_platform = example_platform\<lparr> respond := (\<lambda>r. Inl (Raised ''ClientConnectorError'')) \<rparr>"

text \<open>A platform on which the asset file cannot be opened for writing.\<close>

definition readonly_platform :: platform where
  "readonly_platform = example_platform\<lparr> open_file := (\<lambda>path. Inl (Raised ''PermissionError'')) \<rparr>"

definition initial_state :: state where
  "initial_state =
     \<lparr> sent = [], clock_reads = 0, log = [], self_unit_name_map = None, files = [],
       is_ready = False, ignored = [] \<rparr>"

section \<open>Properties of the building blocks\<close>

lemma dumps_empty_object: "dumps (JObject []) = dumps_compact (JObject [])"
  by (simp add: dumps_def dumps_compact_def)

lemma payload_string_object: "payload_string (Some (JObject kvs)) = dumps_compact (JObject kvs)"
  by (cases kvs) (simp_all add: payload_string_def dumps_def dumps_compact_def)

lemma init_simps [simp]:
  "bot_config (SwgohComlink_init cfg) = cfg"
  "hmac (SwgohComlink_init cfg) = (ACCESS_KEY cfg \<noteq> [] \<and> SECRET_KEY cfg \<noteq> [])"
  "url_base (SwgohComlink_init cfg) = COMLINK_URL cfg"
  "stats_url_base (SwgohComlink_init cfg) = STATS_URL cfg"
  by (simp_all add: SwgohComlink_init_def)

text \<open>
  A client made by \<^verbatim>\<open>__init__\<close> never fails the \<^verbatim>\<open>assert\<close>: \<^verbatim>\<open>_post\<close> hands
  exactly one request to the session and returns what the server answers.
\<close>

lemma post_effect:
  "post p (SwgohComlink_init cfg) u e pl st =
     (respond p (the_request p cfg u e pl st),
      st\<lparr>clock_reads := (if ACCESS_KEY cfg \<noteq> [] \<and> SECRET_KEY cfg \<noteq> []
                          then Suc (clock_reads st) else clock_reads st),
         sent := sent st @ [the_request p cfg u e pl st]\<rparr>)"
  by (auto simp: post_def session_post_def Let_def the_request_def split: option.splits)

lemma new_requests_post:
  "new_requests (post p (SwgohComlink_init cfg) u e pl) st = [the_request p cfg u e pl st]"
  by (simp add: new_requests_def post_effect)

lemma signed_headers_object:
  "signed_headers p (SwgohComlink_init cfg) now (Some endpoint) (Some (JObject kvs)) =
     [(''X-Date'', str_int now),
      (''Authorization'',
         ''HMAC-SHA256 Credential='' @ ACCESS_KEY cfg @ '',Signature='' @
         hmac_sha256_hexdigest p (encode (SECRET_KEY cfg))
           (encode (str_int now) @ ''POST'' @ encode (''/'' @ endpoint) @
            encode (md5_hexdigest p (encode (dumps_compact (JObject kvs))))))]"
  by (simp add: signed_headers_def Let_def hmac_new_def signed_body_def payload_string_object
      format_opt_def)

lemma signed_headers_object_sep:
  "signed_headers p (SwgohComlink_init cfg) now (Some endpoint) (Some (JObject kvs)) =
     [(''X-Date'', str_int now),
      (''Authorization'',
         ''HMAC-SHA256 Credential='' @ ACCESS_KEY cfg @ '',Signature='' @
         hmac_sha256_hexdigest p (encode (SECRET_KEY cfg))
           (encode (str_int now) @ ''POST'' @ encode (''/'' @ endpoint) @
            encode (md5_hexdigest p (encode (dumps_sep '','' '':'' (JObject kvs))))))]"
  by (simp add: signed_headers_object dumps_compact_def)

lemma str_int_7: "str_int 7 = ''7''"
  by (simp add: str_int_def str_nat.simps digit_char_def char_of_eq_iff)

subsection \<open>Sequencing\<close>

lemma io_simps [simp]:
  "io_bind (io_lift (Inl e)) f st = (Inl e, st)"
  "io_bind (io_lift (Inr x)) f st = f x st"
  "io_bind (io_return x) f st = f x st"
  "io_lift r st = (r, st)"
  "io_return x st = (Inr x, st)"
  by (simp_all add: io_bind_def io_lift_def io_return_def)

lemma io_bind_post [simp]:
  "io_bind (post p (SwgohComlink_init cfg) u e pl) f st =
     (case respond p (the_request p cfg u e pl st) of
        Inl err \<Rightarrow> (Inl err, snd (post p (SwgohComlink_init cfg) u e pl st))
      | Inr x \<Rightarrow> f x (snd (post p (SwgohComlink_init cfg) u e pl st)))"
  by (simp add: io_bind_def post_effect split: sum.splits)

lemma sent_post [simp]:
  "sent (snd (post p (SwgohComlink_init cfg) u e pl st)) = sent st @ [the_request p cfg u e pl st]"
  by (simp add: post_effect)

lemma fst_post [simp]:
  "fst (post p (SwgohComlink_init cfg) u e pl st) = respond p (the_request p cfg u e pl st)"
  by (simp add: post_effect)

subsection \<open>Dictionaries and payloads\<close>

lemma dict_get_None_iff: "dict_get kvs k = None \<longleftrightarrow> k \<notin> set (dict_keys kvs)"
  by (induction kvs) (auto simp: dict_keys_def split: if_splits)

lemma dict_get_Some_key: "dict_get kvs k = Some v \<Longrightarrow> k \<in> set (dict_keys kvs)"
  using dict_get_None_iff [of kvs k] by (cases "k \<in> set (dict_keys kvs)") simp_all

lemma get_player_payload_shape:
  "get_player_payload allycode player_id enums =
     [(''payload'', JObject
         [if \<not> truthy_arg allycode \<and> truthy_opt player_id
          then (''playerId'', JStr (format_opt player_id))
          else (''allyCode'', JStr (format_arg allycode))]),
      (''enums'', JBool enums)]"
  by (simp add: get_player_payload_def set_inner_def)

lemma unwrap_guild_object:
  "unwrap_guild (JObject kvs) =
     (case dict_get kvs ''guild'' of Some g \<Rightarrow> Inr g | None \<Rightarrow> Inr (JObject kvs))"
proof (cases "dict_get kvs ''guild''")
  case None
  then have "''guild'' \<notin> set (dict_keys kvs)" by (simp add: dict_get_None_iff)
  with None show ?thesis by simp
next
  case (Some g)
  then have "''guild'' \<in> set (dict_keys kvs)" by (rule dict_get_Some_key)
  with Some show ?thesis by (simp add: dict_item_def)
qed

subsection \<open>The concrete instances\<close>


lemma example_requests [simp]:
  "ACCESS_KEY example_config = ''ak''" "SECRET_KEY example_config = ''sk''"
  "COMLINK_URL example_config = ''http://localhost:3000''"
  "STATS_URL example_config = ''http://localhost:3223''"
  by (simp_all add: example_config_def)

lemma example_url [simp]:
  "req_url (the_request p example_config None (Some e) pl st) = ''http://localhost:3000/'' @ e"
  by (simp add: the_request_def format_opt_def)

lemma req_json_the_request [simp]: "req_json (the_request p cfg u e pl st) = pl"
  by (simp add: the_request_def)

lemma example_respond:
  "respond example_platform r =
    (if req_url r = ''http://localhost:3000/metadata''
         then Inr (JObject [(''latestGamedataVersion'', JStr ''1.2.3''),
                            (''latestLocalizationBundleVersion'', JStr ''en_v9'')])
         else if req_url r = ''http://localhost:3000/localization''
         then Inr (JObject [(''localizationBundle'', JStr ''UNIT_REYNOLDS_NAME|Rey'')])
         else if req_url r = ''http://localhost:3000/guild''
         then Inr (JObject [(''guild'', JObject [(''name'', JStr ''Chiss'')])])
         else Inr (JObject []))"
  by (simp add: example_platform_def)

lemma sent_initial [simp]: "sent initial_state = []"
  by (simp add: initial_state_def)

subsection \<open>The leaderboard tables\<close>

lemma leaderboard_payload_4:
  "leaderboard_payload 4 league division event_instance_id group_id enums =
     [(''payload'', JObject [(''leaderboardType'', JInt 4),
                             (''eventInstanceId'', json_of_opt event_instance_id),
                             (''groupId'', json_of_opt group_id)]),
      (''enums'', JBool enums)]"
  by (simp add: leaderboard_payload_def set_inner_def)






subsection \<open>What the pipeline leaves unchanged\<close>






















lemma io_bind_assoc [simp]:
  "io_bind (io_bind m f) g = io_bind m (\<lambda>x. io_bind (f x) g)"
  by (rule ext) (simp add: io_bind_def split: prod.splits sum.splits)

lemma io_bind_logger [simp]:
  "io_bind (logger p name level message) f st =
     (case log_write p (length (log st)) name level message of
        Inl e \<Rightarrow> (Inl e, st)
      | Inr u \<Rightarrow> f () (st\<lparr>log := log st @ [(name, level, message)]\<rparr>))"
  by (simp add: io_bind_def logger_def split: sum.splits)

lemma example_log_write [simp]:
  "log_write example_platform n name level message = Inr ()"
  "log_write offline_platform n name level message = Inr ()"
  "log_write readonly_platform n name level message = Inr ()"
  by (simp_all add: example_platform_def offline_platform_def readonly_platform_def)

lemma offline_respond [simp]: "respond offline_platform r = Inl (Raised ''ClientConnectorError'')"
  by (simp add: offline_platform_def)


lemma initial_simps [simp]:
  "\<not> is_ready initial_state" "warnings initial_state = []" "files initial_state = []"
  "self_unit_name_map initial_state = None" "log initial_state = []"
  "ignored initial_state = []"
  by (simp_all add: initial_state_def warnings_def)

subsection \<open>Serialised envelopes\<close>

lemma encode_append [simp]: "encode (a @ b) = encode a @ encode b"
  by (simp add: encode_def)

lemma encode_Cons: "encode (c # s) = encode_char c @ encode s"
  by (simp add: encode_def)

lemma members_has_key:
  "k \<in> set (dict_keys kvs) \<Longrightarrow> \<exists>ps ss. dumps_members isep ksep kvs = ps @ encode_basestring k @ ss"
proof (induction kvs)
  case Nil
  then show ?case by (simp add: dict_keys_def)
next
  case (Cons a kvs)
  obtain k' v where a: "a = (k', v)" by (cases a)
  show ?case
  proof (cases "k' = k")
    case True
    show ?thesis
    proof (cases kvs)
      case Nil
      with a True have "dumps_members isep ksep (a # kvs) =
          [] @ encode_basestring k @ (ksep @ dumps_sep isep ksep v)" by simp
      then show ?thesis by blast
    next
      case (Cons m rest)
      with a True have "dumps_members isep ksep (a # kvs) =
          [] @ encode_basestring k @ (ksep @ dumps_sep isep ksep v @ isep @ dumps_members isep ksep (m # rest))"
        by simp
      then show ?thesis by blast
    qed
  next
    case False
    with Cons.prems a have "k \<in> set (dict_keys kvs)" by (simp add: dict_keys_def)
    from Cons.IH [OF this] obtain ps ss where
      ih: "dumps_members isep ksep kvs = ps @ encode_basestring k @ ss" by blast
    from \<open>k \<in> set (dict_keys kvs)\<close> obtain m rest where kvs: "kvs = m # rest"
      by (cases kvs) (auto simp: dict_keys_def)
    have "dumps_members isep ksep (a # kvs) =
        (encode_basestring k' @ ksep @ dumps_sep isep ksep v @ isep @ ps) @ encode_basestring k @ ss"
      using a kvs ih by simp
    then show ?thesis by blast
  qed
qed

lemma serialised_key:
  assumes "''payload'' \<in> set (dict_keys kvs)"
  shows "serialised_has_payload_key
           \<lparr>req_method = m, req_url = url, req_json = Some (JObject kvs), req_headers = hdrs\<rparr>"
proof -
  from members_has_key [OF assms, of "'', ''" "'': ''"] obtain ps ss where
    "dumps_members '', '' '': '' kvs = ps @ encode_basestring ''payload'' @ ss" by blast
  then have "encode (dumps (JObject kvs)) =
      encode (''{'' @ ps) @ encode (encode_basestring ''payload'') @ encode (ss @ ''}'')"
    by (simp add: dumps_def encode_Cons)
  then show ?thesis
    unfolding serialised_has_payload_key_def transmitted_body_def sublist_def by auto
qed

lemma payload_request_built:
  "''payload'' \<in> set (dict_keys kvs) \<Longrightarrow>
     payload_request
       \<lparr>req_method = ''POST'', req_url = url, req_json = Some (JObject kvs), req_headers = hdrs\<rparr>"
  by (simp add: payload_request_def serialised_key has_payload_key_def)

lemma default_metadata_request_built:
  "default_metadata_request c
     \<lparr>req_method = ''POST'', req_url = url_base c @ ''/metadata'', req_json = Some (JObject []),
      req_headers = hdrs\<rparr>"
  by (simp add: default_metadata_request_def transmitted_body_def dumps_def encode_def
      encode_char_def)

subsection \<open>The requests of each operation\<close>

lemma sends_only_bind:
  assumes "sends_only Q m" and "\<And>x. sends_only Q (g x)"
  shows "sends_only Q (io_bind m g)"
  unfolding sends_only_def
proof
  fix st
  obtain r st1 where m: "m st = (r, st1)" by (cases "m st")
  from assms(1) m obtain new where n: "sent st1 = sent st @ new" "list_all Q new"
    unfolding sends_only_def by (metis snd_conv)
  show "\<exists>new. sent (snd (io_bind m g st)) = sent st @ new \<and> list_all Q new"
  proof (cases r)
    case (Inl e)
    with m n show ?thesis by (auto simp: io_bind_def)
  next
    case (Inr x)
    from assms(2) [of x] obtain new' where
      "sent (snd (g x st1)) = sent st1 @ new'" "list_all Q new'"
      unfolding sends_only_def by blast
    with Inr m n have "sent (snd (io_bind m g st)) = sent st @ (new @ new')" "list_all Q (new @ new')"
      by (simp_all add: io_bind_def)
    then show ?thesis by blast
  qed
qed

lemma sends_only_mono:
  assumes "sends_only Q m" and "\<And>r. Q r \<Longrightarrow> Q' r"
  shows "sends_only Q' m"
  unfolding sends_only_def
proof
  fix st
  from assms(1) obtain new where "sent (snd (m st)) = sent st @ new" "list_all Q new"
    unfolding sends_only_def by blast
  moreover from this(2) assms(2) have "list_all Q' new" by (auto simp: list_all_iff)
  ultimately show "\<exists>new. sent (snd (m st)) = sent st @ new \<and> list_all Q' new" by blast
qed

lemma sends_nothing:
  "sends_only Q (io_lift r)" "sends_only Q (io_return x)" "sends_only Q (logger p n l msg)"
  "sends_only Q (set_unit_name_map d)" "sends_only Q (save_file p path content)"
  by (simp_all add: sends_only_def logger_def set_unit_name_map_def save_file_def
      split: sum.splits prod.splits)

lemma sends_only_if:
  "sends_only Q m \<Longrightarrow> sends_only Q n \<Longrightarrow> sends_only Q (if b then m else n)"
  by simp

lemma sends_only_post:
  assumes "\<And>hdrs. Q \<lparr>req_method = ''POST'',
              req_url = (case u of None \<Rightarrow> url_base c | Some b \<Rightarrow> if b = [] then url_base c else b)
                        @ ''/'' @ format_opt e,
              req_json = pl, req_headers = hdrs\<rparr>"
  shows "sends_only Q (post p c u e pl)"
  using assms by (auto simp: sends_only_def post_def session_post_def Let_def)

lemma sends_only_post_payload:
  "''payload'' \<in> set (dict_keys kvs) \<Longrightarrow>
     sends_only payload_request (post p c u e (Some (JObject kvs)))"
  by (intro sends_only_post payload_request_built)

lemma sends_metadata_default:
  "sends_only (default_metadata_request c) (get_game_metadata p c [] enums)"
  unfolding get_game_metadata_def
  using default_metadata_request_built [of c]
  by (auto simp: format_opt_def intro!: sends_only_post)

lemma sends_metadata_specs:
  "specs \<noteq> [] \<Longrightarrow> sends_only payload_request (get_game_metadata p c specs enums)"
  by (simp add: get_game_metadata_def sends_only_post_payload dict_keys_def)

lemma sends_version:
  "sends_only (default_metadata_request c) (get_latest_game_data_version p c)"
  unfolding get_latest_game_data_version_def
  by (intro sends_only_bind sends_nothing sends_metadata_default)

lemma sends_localization_id:
  "truthy i \<Longrightarrow> sends_only payload_request (get_localization p c i unzip enums)"
  unfolding get_localization_def
  by (simp, intro sends_only_bind sends_nothing sends_only_post_payload) (simp add: dict_keys_def)

lemma sends_localization:
  "sends_only (\<lambda>r. payload_request r \<or> default_metadata_request c r)
     (get_localization p c i unzip enums)"
  unfolding get_localization_def
  by (intro sends_only_bind sends_only_if sends_nothing
        sends_only_mono [OF sends_version] sends_only_mono [OF sends_only_post_payload])
     (simp_all add: dict_keys_def)

lemma sends_pipeline:
  "sends_only (\<lambda>r. payload_request r \<or> default_metadata_request c r)
     (create_localised_unit_name_dictionary p c)"
  unfolding create_localised_unit_name_dictionary_def
  by (intro sends_only_bind sends_nothing sends_localization sends_only_mono [OF sends_version])
     simp_all

lemma new_requests_sends_only:
  "sends_only Q m \<Longrightarrow> list_all Q (new_requests m st)"
proof -
  assume "sends_only Q m"
  then obtain new where "sent (snd (m st)) = sent st @ new" "list_all Q new"
    unfolding sends_only_def by blast
  then show ?thesis by (simp add: new_requests_def)
qed

lemma player_payload_key: "''payload'' \<in> set (dict_keys (get_player_payload a i e))"
  by (simp add: get_player_payload_shape dict_keys_def)

lemma dict_keys_dict_set: "k \<in> set (dict_keys kvs) \<Longrightarrow> k \<in> set (dict_keys (dict_set kvs k' v))"
  by (induction kvs) (force simp: dict_keys_def)+

lemma dict_keys_set_inner: "k \<in> set (dict_keys kvs) \<Longrightarrow> k \<in> set (dict_keys (set_inner kvs k' v))"
  by (auto simp: set_inner_def dict_keys_dict_set split: option.splits json.splits)

lemma leaderboard_payload_key:
  "''payload'' \<in> set (dict_keys (leaderboard_payload t l d e g en))"
proof -
  have base: "''payload'' \<in> set (dict_keys [(''payload'', x), (''enums'', y)])" for x y :: json
    by (simp add: dict_keys_def)
  show ?thesis
    unfolding leaderboard_payload_def Let_def by (auto intro!: dict_keys_set_inner base)
qed


subsection \<open>Compact and default separators\<close>

lemma length_encode_append: "length (encode (a @ b)) = length (encode a) + length (encode b)"
  by simp

lemma items_length:
  "(\<And>x. x \<in> set xs \<Longrightarrow> length (encode (dumps_sep '','' '':'' x)) \<le> length (encode (dumps_sep '', '' '': '' x)))
   \<Longrightarrow> length (encode (dumps_items '','' '':'' xs)) \<le> length (encode (dumps_items '', '' '': '' xs))"
proof (induction xs rule: induct_list012)
  case 1
  then show ?case by simp
next
  case (2 x)
  then show ?case by simp
next
  case (3 x y zs)
  have "length (encode (dumps_sep '','' '':'' x)) \<le> length (encode (dumps_sep '', '' '': '' x))"
    using 3(3) by simp
  moreover have "length (encode (dumps_items '','' '':'' (y # zs))) \<le> length (encode (dumps_items '', '' '': '' (y # zs)))"
    using 3(2) 3(3) by simp
  ultimately show ?case by (simp add: encode_Cons)
qed

lemma members_length:
  "\<forall>kv\<in>set kvs. length (encode (dumps_sep '','' '':'' (snd kv)))
        \<le> length (encode (dumps_sep '', '' '': '' (snd kv)))
   \<Longrightarrow> kvs \<noteq> []
   \<Longrightarrow> length (encode (dumps_members '','' '':'' kvs)) < length (encode (dumps_members '', '' '': '' kvs))"
proof (induction kvs rule: induct_list012)
  case 1
  then show ?case by simp
next
  case (2 kv)
  then show ?case by (cases kv) (simp add: encode_Cons encode_char_def)
next
  case (3 kv m rest)
  have b: "length (encode (dumps_members '','' '':'' (m # rest))) < length (encode (dumps_members '', '' '': '' (m # rest)))"
    using 3(2) 3(3) by simp
  have a: "length (encode (dumps_sep '','' '':'' (snd kv))) \<le> length (encode (dumps_sep '', '' '': '' (snd kv)))"
    using 3(3) by simp
  show ?case using a b by (cases kv) (simp add: encode_Cons encode_char_def)
qed

lemma dumps_length:
  "length (encode (dumps_sep '','' '':'' v)) \<le> length (encode (dumps_sep '', '' '': '' v))"
proof (induction v)
  case (JList xs)
  then show ?case using items_length [of xs] by (simp add: encode_Cons)
next
  case (JObject kvs)
  have "length (encode (dumps_members '','' '':'' kvs)) \<le> length (encode (dumps_members '', '' '': '' kvs))"
  proof (cases "kvs = []")
    case True
    then show ?thesis by simp
  next
    case False
    have "length (encode (dumps_sep '','' '':'' (snd kv))) \<le> length (encode (dumps_sep '', '' '': '' (snd kv)))"
      if "kv \<in> set kvs" for kv
      using JObject [OF that, of "snd kv"] by (simp add: snds.simps)
    then have "\<forall>kv\<in>set kvs. length (encode (dumps_sep '','' '':'' (snd kv)))
        \<le> length (encode (dumps_sep '', '' '': '' (snd kv)))" by blast
    from members_length [OF this False] show ?thesis by simp
  qed
  then show ?case by (simp add: encode_Cons)
qed simp_all

lemma object_bodies_differ:
  "encode (dumps (JObject kvs)) = encode (dumps_compact (JObject kvs)) \<longleftrightarrow> kvs = []"
proof
  assume eq: "encode (dumps (JObject kvs)) = encode (dumps_compact (JObject kvs))"
  show "kvs = []"
  proof (rule ccontr)
    assume "kvs \<noteq> []"
    then have "length (encode (dumps_members '','' '':'' kvs)) < length (encode (dumps_members '', '' '': '' kvs))"
      by (intro members_length ballI dumps_length)
    then have "length (encode (dumps_compact (JObject kvs))) < length (encode (dumps (JObject kvs)))"
      by (simp add: dumps_def dumps_compact_def encode_Cons)
    with eq show False by simp
  qed
next
  assume "kvs = []"
  then show "encode (dumps (JObject kvs)) = encode (dumps_compact (JObject kvs))"
    by (simp add: dumps_def dumps_compact_def)
qed

lemma signed_body_object: "signed_body (Some (JObject kvs)) = encode (dumps_compact (JObject kvs))"
  by (simp add: signed_body_def payload_string_object)

lemma transmitted_the_request:
  "transmitted_body (the_request p cfg u e (Some v) st) = Some (encode (dumps v))"
  by (simp add: transmitted_body_def)

lemma headers_the_request:
  "ACCESS_KEY cfg \<noteq> [] \<Longrightarrow> SECRET_KEY cfg \<noteq> [] \<Longrightarrow>
     req_headers (the_request p cfg u e pl st) =
       signed_headers p (SwgohComlink_init cfg) (time_ms p (clock_reads st)) e pl"
  by (simp add: the_request_def)

subsection \<open>Lines of the localisation text\<close>

lemma split_char_no_sep: "sep \<notin> set s \<Longrightarrow> split_char sep s = [s]"
  by (induction s) auto

lemma split_char_at_sep:
  "sep \<notin> set a \<Longrightarrow> split_char sep (a @ sep # b) = a # split_char sep b"
  by (induction a) auto

lemma rstrip_no_newline: "c \<notin> set s \<Longrightarrow> rstrip c s = s"
  by (cases "rev s") (auto simp: rstrip_def)

lemma startswith_key:
  assumes "sep \<notin> set key" and "sep \<notin> set pre"
  shows "startswith (key @ sep # desc) pre \<longleftrightarrow> startswith key pre"
proof (cases "length pre \<le> length key")
  case True
  then show ?thesis by (simp add: startswith_def)
next
  case False
  then have l: "length key < length pre" by simp
  have "take (length pre) (key @ sep # desc) \<noteq> pre"
  proof
    assume e: "take (length pre) (key @ sep # desc) = pre"
    have "take (length pre) (key @ sep # desc) ! length key = sep"
      using l by (simp add: nth_append)
    with e have "pre ! length key = sep" by simp
    with nth_mem [OF l] have "sep \<in> set pre" by simp
    with assms(2) show False by simp
  qed
  moreover have "take (length pre) key \<noteq> pre"
  proof
    assume "take (length pre) key = pre"
    then have "length (take (length pre) key) = length pre" by simp
    with l show False by simp
  qed
  ultimately show ?thesis by (simp add: startswith_def)
qed

text \<open>A line with exactly one separator.\<close>

lemma parse_line_one_separator:
  assumes "CHR ''|'' \<notin> set key" and "CHR ''|'' \<notin> set desc"
      and "CHR 0x0A \<notin> set key" and "CHR 0x0A \<notin> set desc"
  shows "parse_line m (key @ ''|'' @ desc) =
           Inr (if \<not> startswith key ''#'' \<and> startswith key ''UNIT_'' \<and> endswith key ''_NAME''
                then dict_set m key desc else m)"
proof -
  let ?line = "key @ CHR ''|'' # desc"
  have r: "rstrip (CHR 0x0A) ?line = ?line"
    using assms(3,4) by (intro rstrip_no_newline) simp
  have sp: "split_char (CHR ''|'') ?line = [key, desc]"
    using assms(1,2) by (simp add: split_char_at_sep split_char_no_sep)
  have h: "startswith ?line ''#'' \<longleftrightarrow> startswith key ''#''"
    using assms(1) by (intro startswith_key) simp_all
  have u: "startswith ?line ''UNIT_'' \<longleftrightarrow> startswith key ''UNIT_''"
    using assms(1) by (intro startswith_key) simp_all
  show ?thesis
    by (simp add: parse_line_def Let_def r sp h u)
qed

subsection \<open>A run that fails after the assignment\<close>

lemma readonly_simps [simp]:
  "respond readonly_platform = respond example_platform"
  "open_file readonly_platform path = Inl (Raised ''PermissionError'')"
  "b64decode readonly_platform s = Inr s"
  "zip_open readonly_platform d = Inr ()"
  "zip_read readonly_platform d n = Inr d"
  "utf8_decode readonly_platform d = Inr d"
  by (simp_all add: readonly_platform_def example_platform_def)




section \<open>The signature\<close>

text \<open>
  C1.  With both keys configured, \<^verbatim>\<open>_post\<close> sends one request whose headers are
  \<^verbatim>\<open>X-Date\<close>, holding the decimal text of the clock reading in milliseconds, and
  \<^verbatim>\<open>Authorization\<close>, holding
  \<^verbatim>\<open>HMAC-SHA256 Credential=<access key>,Signature=<hex>\<close>, where the hex digest is
  the HMAC-SHA256 under the secret key of the bytes of that same text, then
  \<^verbatim>\<open>POST\<close>, then the path with its leading slash, then the hex MD5 digest of
  the envelope serialised with the separators \<^verbatim>\<open>,\<close> and \<^verbatim>\<open>:\<close>.  The body the
  session transmits is the envelope serialised with the separators \<^verbatim>\<open>, \<close> and
  \<^verbatim>\<open>: \<close>: it is the hashed text exactly when the envelope is the empty mapping.
  Two calls with the same keys, reading, path and envelope attach the same
  headers.
\<close>

theorem signed_request_headers:
  assumes "ACCESS_KEY cfg \<noteq> []" and "SECRET_KEY cfg \<noteq> []"
  shows "map req_headers
           (new_requests (post p (SwgohComlink_init cfg) u (Some endpoint) (Some (JObject kvs))) st) =
         [[(''X-Date'', str_int (time_ms p (clock_reads st))),
           (''Authorization'',
              ''HMAC-SHA256 Credential='' @ ACCESS_KEY cfg @ '',Signature='' @
              hmac_sha256_hexdigest p (encode (SECRET_KEY cfg))
                (encode (str_int (time_ms p (clock_reads st))) @ ''POST'' @
                 encode (''/'' @ endpoint) @
                 encode (md5_hexdigest p (encode (dumps_sep '','' '':'' (JObject kvs))))))]]
       \<and> map transmitted_body
           (new_requests (post p (SwgohComlink_init cfg) u (Some endpoint) (Some (JObject kvs))) st) =
         [Some (encode (dumps_sep '', '' '': '' (JObject kvs)))]
       \<and> (encode (dumps_sep '', '' '': '' (JObject kvs)) =
            encode (dumps_sep '','' '':'' (JObject kvs)) \<longleftrightarrow> kvs = [])
       \<and> (time_ms p (clock_reads st') = time_ms p (clock_reads st) \<longrightarrow>
            map req_headers
              (new_requests (post p (SwgohComlink_init cfg) u' (Some endpoint) (Some (JObject kvs))) st') =
            map req_headers
              (new_requests (post p (SwgohComlink_init cfg) u (Some endpoint) (Some (JObject kvs))) st))"
proof -
  have h: "req_headers (the_request p cfg v (Some endpoint) (Some (JObject kvs)) s) =
      [(''X-Date'', str_int (time_ms p (clock_reads s))),
           (''Authorization'',
              ''HMAC-SHA256 Credential='' @ ACCESS_KEY cfg @ '',Signature='' @
              hmac_sha256_hexdigest p (encode (SECRET_KEY cfg))
                (encode (str_int (time_ms p (clock_reads s))) @ ''POST'' @
                 encode (''/'' @ endpoint) @
                 encode (md5_hexdigest p (encode (dumps_sep '','' '':'' (JObject kvs))))))]" for v s
    using assms by (simp add: headers_the_request signed_headers_object_sep)
  have t: "transmitted_body (the_request p cfg u (Some endpoint) (Some (JObject kvs)) st) =
      Some (encode (dumps_sep '', '' '': '' (JObject kvs)))"
    by (simp only: transmitted_the_request dumps_def)
  have d: "encode (dumps_sep '', '' '': '' (JObject kvs)) =
            encode (dumps_sep '','' '':'' (JObject kvs)) \<longleftrightarrow> kvs = []"
    using object_bodies_differ [of kvs] by (simp only: dumps_def dumps_compact_def)
  show ?thesis
    by (simp only: new_requests_post list.map h t d) simp
qed

theorem signed_request_headers_witness:
  "ACCESS_KEY example_config \<noteq> [] \<and> SECRET_KEY example_config \<noteq> [] \<and>
   map req_headers
     (new_requests (post example_platform (SwgohComlink_init example_config) None
        (Some ''getEvents'') (Some (JObject [(''payload'', JObject []), (''enums'', JBool False)])))
        initial_state) =
     [[(''X-Date'', ''7''),
       (''Authorization'',
          ''HMAC-SHA256 Credential=ak,Signature=sk7POST/getEvents{'' @ [CHR 0x22] @ ''payload'' @
          [CHR 0x22] @ '':{},'' @ [CHR 0x22] @ ''enums'' @ [CHR 0x22] @ '':false}'')]] \<and>
   map transmitted_body
     (new_requests (post example_platform (SwgohComlink_init example_config) None
        (Some ''getEvents'') (Some (JObject [(''payload'', JObject []), (''enums'', JBool False)])))
        initial_state) =
     [Some (''{'' @ [CHR 0x22] @ ''payload'' @ [CHR 0x22] @ '': {}, '' @ [CHR 0x22] @ ''enums'' @
            [CHR 0x22] @ '': false}'')] \<and>
   [(''payload'', JObject []), (''enums'', JBool False)] \<noteq> [] \<and>
   time_ms example_platform (clock_reads (initial_state\<lparr>clock_reads := 5\<rparr>)) =
     time_ms example_platform (clock_reads initial_state) \<and>
   map req_headers
     (new_requests (post example_platform (SwgohComlink_init example_config)
        (Some ''http://localhost:3001'')
        (Some ''getEvents'') (Some (JObject [(''payload'', JObject []), (''enums'', JBool False)])))
        (initial_state\<lparr>clock_reads := 5\<rparr>)) =
     [[(''X-Date'', ''7''),
       (''Authorization'',
          ''HMAC-SHA256 Credential=ak,Signature=sk7POST/getEvents{'' @ [CHR 0x22] @ ''payload'' @
          [CHR 0x22] @ '':{},'' @ [CHR 0x22] @ ''enums'' @ [CHR 0x22] @ '':false}'')]]"
  using signed_request_headers
    [of example_config example_platform None "''getEvents''"
       "[(''payload'', JObject []), (''enums'', JBool False)]" initial_state
       "initial_state\<lparr>clock_reads := 5\<rparr>" "Some ''http://localhost:3001''"]
  by (simp add: example_platform_def initial_state_def str_int_7 encode_def
      encode_char_def encode_basestring_def escape_char_def)

text \<open>
  The claim as stated fails: the digest in the signature of the request of
  \<^verbatim>\<open>get_events\<close> is not that of the body the session transmits.
\<close>

theorem signature_body_counterexample:
  "map req_headers
     (new_requests (get_events example_platform (SwgohComlink_init example_config) False)
        initial_state) =
     [[(''X-Date'', ''7''),
       (''Authorization'',
          ''HMAC-SHA256 Credential=ak,Signature=sk7POST/getEvents{'' @ [CHR 0x22] @ ''payload'' @
          [CHR 0x22] @ '':{},'' @ [CHR 0x22] @ ''enums'' @ [CHR 0x22] @ '':false}'')]] \<and>
   map transmitted_body
     (new_requests (get_events example_platform (SwgohComlink_init example_config) False)
        initial_state) =
     [Some (''{'' @ [CHR 0x22] @ ''payload'' @ [CHR 0x22] @ '': {}, '' @ [CHR 0x22] @ ''enums'' @
            [CHR 0x22] @ '': false}'')] \<and>
   map req_headers
     (new_requests (get_events example_platform (SwgohComlink_init example_config) False)
        initial_state) \<noteq>
     [[(''X-Date'', ''7''),
       (''Authorization'',
          ''HMAC-SHA256 Credential=ak,Signature='' @
          hmac_sha256_hexdigest example_platform ''sk''
            (''7'' @ ''POST'' @ ''/getEvents'' @
             md5_hexdigest example_platform
               (''{'' @ [CHR 0x22] @ ''payload'' @ [CHR 0x22] @ '': {}, '' @ [CHR 0x22] @
                ''enums'' @ [CHR 0x22] @ '': false}'')))]]"
  by (simp add: get_events_def new_requests_post headers_the_request transmitted_the_request
      signed_headers_object dumps_def dumps_compact_def encode_def encode_char_def
      encode_basestring_def escape_char_def example_platform_def initial_state_def str_int_7)

section \<open>The payload builders\<close>

text \<open>
  C3.  The claim says that a call of the player-lookup payload builder with both a
  player id and an ally code puts only \<^verbatim>\<open>playerId\<close> into the inner mapping (the
  comment above the branch says the same: the player id is used instead of the ally
  code when it is provided).  The condition of the branch is
  \<^verbatim>\<open>not allycode and player_id\<close>, so with both supplied the builder writes only
  \<^verbatim>\<open>allyCode\<close>.
\<close>

theorem get_player_payload_both:
  "get_player_payload (Some (PStr ''123456789'')) (Some ''abc'') False =
   [(''payload'', JObject [(''allyCode'', JStr ''123456789'')]), (''enums'', JBool False)]"
  by (simp add: get_player_payload_def set_inner_def truthy_opt_def)

text \<open>
  C4.  A leaderboard request of type 4 is not validated: whenever the league and
  the division translate (in particular when they are absent), one request is
  handed to the session, with \<^verbatim>\<open>eventInstanceId\<close> and \<^verbatim>\<open>groupId\<close> set to the
  arguments as given, \<^verbatim>\<open>null\<close> for an absent one, and the result is the answer of
  the server.
\<close>

theorem leaderboard_type_4_dispatch:
  assumes "translate_league league = Inr league'"
      and "translate_division division = Inr division'"
  shows "map req_json
           (new_requests (get_leaderboard p (SwgohComlink_init cfg) 4 league division
              event_instance_id group_id enums) st) =
         [Some (JObject
            [(''payload'', JObject [(''leaderboardType'', JInt 4),
                                    (''eventInstanceId'', json_of_opt event_instance_id),
                                    (''groupId'', json_of_opt group_id)]),
             (''enums'', JBool enums)])]
       \<and> fst (get_leaderboard p (SwgohComlink_init cfg) 4 league division
              event_instance_id group_id enums st) =
         respond p (last (sent (snd (get_leaderboard p (SwgohComlink_init cfg) 4 league division
              event_instance_id group_id enums st))))"
  using assms
  by (simp add: get_leaderboard_def new_requests_def leaderboard_payload_4)

theorem leaderboard_type_4_dispatch_witness:
  "translate_league None = Inr None \<and> translate_division None = Inr None \<and>
   map req_json
     (new_requests (get_leaderboard example_platform (SwgohComlink_init example_config) 4 None None
        None None False) initial_state) =
     [Some (JObject
        [(''payload'', JObject [(''leaderboardType'', JInt 4), (''eventInstanceId'', JNull),
                                (''groupId'', JNull)]),
         (''enums'', JBool False)])]"
  using leaderboard_type_4_dispatch [of None None None None example_platform example_config
      None None False initial_state]
  by (simp add: translate_division_def result_bind_def json_of_opt_def)

text \<open>
  The claim as stated fails: with neither identifier, the request is dispatched
  and the call returns the answer.
\<close>

theorem leaderboard_type_4_counterexample:
  "map req_json
     (new_requests (get_leaderboard example_platform (SwgohComlink_init example_config) 4 None None
        None None False) initial_state) =
     [Some (JObject
        [(''payload'', JObject [(''leaderboardType'', JInt 4), (''eventInstanceId'', JNull),
                                (''groupId'', JNull)]),
         (''enums'', JBool False)])] \<and>
   fst (get_leaderboard example_platform (SwgohComlink_init example_config) 4 None None
        None None False initial_state) = Inr (JObject [])"
  by (simp add: get_leaderboard_def new_requests_def leaderboard_payload_4 translate_division_def
      result_bind_def json_of_opt_def example_respond)



section \<open>Decoding the responses\<close>

text \<open>
  C7.  \<^verbatim>\<open>get_player\<close> returns the mapping the server answered as it is, whatever
  keys it has: \<^verbatim>\<open>Player\<close> is a \<^verbatim>\<open>TypedDict\<close>, whose constructor checks nothing.
\<close>

theorem get_player_result:
  assumes "map (respond p)
           (new_requests (get_player p (SwgohComlink_init cfg) allycode player_id enums) st)
         = [Inr (JObject response)]"
  shows "fst (get_player p (SwgohComlink_init cfg) allycode player_id enums st) = Inr (JObject response)"
  using assms
  by (simp add: get_player_def new_requests_def split: sum.splits)

theorem get_player_result_witness:
  "map (respond example_platform)
     (new_requests (get_player example_platform (SwgohComlink_init example_config)
        (Some (PInt 123456789)) None False) initial_state) = [Inr (JObject [])] \<and>
   fst (get_player example_platform (SwgohComlink_init example_config)
        (Some (PInt 123456789)) None False initial_state) = Inr (JObject [])"
  using get_player_result [of example_platform example_config "Some (PInt 123456789)" None False
      initial_state "[]"]
  by (simp add: get_player_def new_requests_def example_respond)

text \<open>
  The claim as stated fails: the empty mapping lacks the required key \<^verbatim>\<open>name\<close>,
  and \<^verbatim>\<open>get_player\<close> returns it without an error.
\<close>

theorem get_player_missing_keys_counterexample:
  "map (respond example_platform)
     (new_requests (get_player example_platform (SwgohComlink_init example_config)
        (Some (PStr ''123456789'')) None False) initial_state) = [Inr (JObject [])] \<and>
   ''name'' \<in> set Player_keys \<and>
   ''name'' \<notin> set (dict_keys ([] :: (string \<times> json) list)) \<and>
   fst (get_player example_platform (SwgohComlink_init example_config)
        (Some (PStr ''123456789'')) None False initial_state) = Inr (JObject [])"
  by (simp add: get_player_def new_requests_def example_respond Player_keys_def dict_keys_def)

text \<open>
  C10.  When the server answers the guild request with a mapping, \<^verbatim>\<open>get_guild\<close>
  returns the value under the key \<^verbatim>\<open>guild\<close> if the mapping has that key, and the
  whole mapping otherwise.
\<close>

theorem get_guild_result:
  assumes "includeRecent \<noteq> Some False"
    and "map (respond p)
           (new_requests (get_guild p (SwgohComlink_init cfg) guild_id include_recent includeRecent enums) st)
         = [Inr (JObject response)]"
  shows "fst (get_guild p (SwgohComlink_init cfg) guild_id include_recent includeRecent enums st) =
           (case dict_get response ''guild'' of
              Some guild \<Rightarrow> Inr guild
            | None \<Rightarrow> Inr (JObject response))"
proof (cases "param_alias include_recent includeRecent")
  case (Inl e)
  with assms(2) show ?thesis by (simp add: get_guild_def new_requests_def)
next
  case (Inr b)
  with assms(2) show ?thesis
    by (simp add: get_guild_def new_requests_def unwrap_guild_object del: unwrap_guild.simps
        split: sum.splits)
qed

theorem get_guild_result_witness:
  "(None :: bool option) \<noteq> Some False \<and>
   map (respond example_platform)
     (new_requests
        (get_guild example_platform (SwgohComlink_init example_config) ''G1'' NotPassed None False)
        initial_state) = [Inr (JObject [(''guild'', JObject [(''name'', JStr ''Chiss'')])])] \<and>
   fst (get_guild example_platform (SwgohComlink_init example_config) ''G1'' NotPassed None False
          initial_state) = Inr (JObject [(''name'', JStr ''Chiss'')])"
  using get_guild_result [of None example_platform example_config "''G1''" NotPassed False
      initial_state "[(''guild'', JObject [(''name'', JStr ''Chiss'')])]"]
  by (simp add: get_guild_def param_alias_def new_requests_def example_respond)

section \<open>The localisation pipeline and its failures\<close>

text \<open>
  C6.  The claim says the parser splits a kept line on the first \<^verbatim>\<open>|\<close> into the key
  and the description.  The source splits on every \<^verbatim>\<open>|\<close> and unpacks the parts
  into two names, so a line of a unit name whose description holds a second
  \<^verbatim>\<open>|\<close> raises \<^verbatim>\<open>ValueError\<close> instead of yielding an entry, and the whole parse
  fails with it.  On a line with exactly one \<^verbatim>\<open>|\<close>, hence on the lines of the
  claim's examples, the parser does what the claim says
  (\<open>parse_line_one_separator\<close>, \<open>parse_locale_examples\<close>).
\<close>

theorem parse_locale_two_pipes:
  "parse_locale ''UNIT_A_NAME|Rey|Skywalker'' = Inl (ValueError ''unpack'')"
  by (simp add: parse_locale_def parse_line_def rstrip_def startswith_def)




section \<open>The request envelopes\<close>

text \<open>
  C9.  Every request of an operation has an envelope with the key \<^verbatim>\<open>payload\<close>,
  which the transmitted body holds too, with these exceptions and no other:
  \<^verbatim>\<open>get_unit_stats\<close> forwards the caller's payload; \<^verbatim>\<open>get_enums\<close> sends one GET
  without body; and the metadata request built without client specs is a POST of
  the empty mapping, with the body \<^verbatim>\<open>{}\<close>.  That request is sent by
  \<^verbatim>\<open>get_game_metadata\<close> when it is given no client specs, by the version lookup, by
  the localisation fetch when it is given no id and by the pipeline, and by no
  other operation.
\<close>

theorem envelopes_carry_payload_key:
  "(\<not> is_GetUnitStats op \<and> op \<noteq> GetEnums \<and> \<not> fetches_default_metadata op \<longrightarrow>
      list_all payload_request (new_requests (call p c op) st)) \<and>
   (fetches_default_metadata op \<longrightarrow>
      list_all (\<lambda>r. payload_request r \<or> default_metadata_request c r)
        (new_requests (call p c op) st)) \<and>
   map (\<lambda>r. (req_method r, req_url r, req_json r, transmitted_body r))
     (new_requests (call p (SwgohComlink_init cfg) (GetGameMetadata [] enums)) st) =
     [(''POST'', COMLINK_URL cfg @ ''/metadata'', Some (JObject []), Some ''{}'')] \<and>
   map (\<lambda>r. (req_method r, req_url r, req_json r, transmitted_body r))
     (new_requests (call p c GetEnums) st) = [(''GET'', url_base c @ ''/enums'', None, None)]"
proof -
  have A: "sends_only payload_request (call p c op)"
    if "\<not> is_GetUnitStats op" "op \<noteq> GetEnums" "\<not> fetches_default_metadata op"
  proof (cases op)
    case (GetUnitStats x11 x12 x13)
    with that show ?thesis by simp
  next
    case GetEnums
    with that show ?thesis by simp
  next
    case (GetEvents x3)
    then show ?thesis by (simp add: get_events_def sends_only_post_payload dict_keys_def)
  next
    case (GetGameData x41 x42 x43 x44)
    then show ?thesis by (simp add: get_game_data_def Let_def sends_only_post_payload dict_keys_def)
  next
    case (GetLocalization x51 x52 x53)
    with that show ?thesis by (simp add: sends_localization_id)
  next
    case (GetGameMetadata x61 x62)
    with that show ?thesis by (simp add: sends_metadata_specs)
  next
    case (GetPlayer x71 x72 x73)
    then show ?thesis
      by (simp add: get_player_def Let_def)
         (intro sends_only_bind sends_nothing sends_only_post_payload player_payload_key)
  next
    case (GetPlayerArena x81 x82 x83 x84 x85)
    then show ?thesis
      by (simp add: get_player_arena_def Let_def)
         (intro sends_only_bind sends_nothing sends_only_post_payload dict_keys_set_inner
             player_payload_key)
  next
    case (GetGuild x91 x92 x93 x94)
    then show ?thesis
      by (simp add: get_guild_def Let_def)
         (intro sends_only_bind sends_nothing sends_only_post_payload, simp add: dict_keys_def)
  next
    case (GetGuildsByName x101 x102 x103 x104)
    then show ?thesis by (simp add: get_guilds_by_name_def sends_only_post_payload dict_keys_def)
  next
    case (GetGuildsByCriteria x111 x112 x113 x114)
    then show ?thesis by (simp add: get_guilds_by_criteria_def sends_only_post_payload dict_keys_def)
  next
    case (GetLeaderboard x121 x122 x123 x124 x125 x126)
    then show ?thesis
      by (simp add: get_leaderboard_def)
         (intro sends_only_bind sends_nothing sends_only_post_payload leaderboard_payload_key)
  next
    case (GetGuildLeaderboard x131 x132 x133)
    then show ?thesis by (simp add: get_guild_leaderboard_def sends_only_post_payload dict_keys_def)
  next
    case GetLatestGameDataVersion
    with that show ?thesis by simp
  next
    case CreateLocalisedUnitNameDictionary
    with that show ?thesis by simp
  qed
  have B: "sends_only (\<lambda>r. payload_request r \<or> default_metadata_request c r) (call p c op)"
    if "fetches_default_metadata op"
  proof (cases op)
    case (GetLocalization x51 x52 x53)
    then show ?thesis by (simp add: sends_localization)
  next
    case (GetGameMetadata x61 x62)
    with that show ?thesis
      by (simp add: sends_only_mono [OF sends_metadata_default])
  next
    case GetLatestGameDataVersion
    then show ?thesis by (simp add: sends_only_mono [OF sends_version])
  next
    case CreateLocalisedUnitNameDictionary
    then show ?thesis
      by simp (intro sends_only_bind sends_nothing sends_pipeline)
  qed (use that in simp_all)
  have C: "map (\<lambda>r. (req_method r, req_url r, req_json r, transmitted_body r))
     (new_requests (call p (SwgohComlink_init cfg) (GetGameMetadata [] enums)) st) =
     [(''POST'', COMLINK_URL cfg @ ''/metadata'', Some (JObject []), Some ''{}'')]"
    by (simp add: get_game_metadata_def new_requests_post the_request_def format_opt_def
        transmitted_body_def dumps_def encode_def encode_char_def)
  have D: "map (\<lambda>r. (req_method r, req_url r, req_json r, transmitted_body r))
     (new_requests (call p c GetEnums) st) = [(''GET'', url_base c @ ''/enums'', None, None)]"
    by (simp add: get_enums_def new_requests_def session_post_def transmitted_body_def)
  show ?thesis
    using new_requests_sends_only [OF A, of st] new_requests_sends_only [OF B, of st] C D
    by blast
qed

theorem envelopes_carry_payload_key_witness:
  "\<not> is_GetUnitStats (GetEvents False) \<and> GetEvents False \<noteq> GetEnums \<and>
   \<not> fetches_default_metadata (GetEvents False) \<and>
   list_all payload_request
     (new_requests (call example_platform (SwgohComlink_init example_config) (GetEvents False))
        initial_state) \<and>
   map transmitted_body
     (new_requests (call example_platform (SwgohComlink_init example_config) (GetEvents False))
        initial_state) =
     [Some (''{'' @ [CHR 0x22] @ ''payload'' @ [CHR 0x22] @ '': {}, '' @ [CHR 0x22] @ ''enums'' @
            [CHR 0x22] @ '': false}'')] \<and>
   fetches_default_metadata GetLatestGameDataVersion \<and>
   list_all (\<lambda>r. payload_request r \<or> default_metadata_request (SwgohComlink_init example_config) r)
     (new_requests (call example_platform (SwgohComlink_init example_config)
        GetLatestGameDataVersion) initial_state) \<and>
   map transmitted_body
     (new_requests (call example_platform (SwgohComlink_init example_config)
        GetLatestGameDataVersion) initial_state) = [Some ''{}'']"
proof -
  have b: "map transmitted_body
     (new_requests (call example_platform (SwgohComlink_init example_config) (GetEvents False))
        initial_state) =
     [Some (''{'' @ [CHR 0x22] @ ''payload'' @ [CHR 0x22] @ '': {}, '' @ [CHR 0x22] @ ''enums'' @
            [CHR 0x22] @ '': false}'')]"
    by (simp add: get_events_def new_requests_post transmitted_body_def dumps_def encode_def
        encode_char_def encode_basestring_def escape_char_def)
  have v: "map transmitted_body
     (new_requests (call example_platform (SwgohComlink_init example_config)
        GetLatestGameDataVersion) initial_state) = [Some ''{}'']"
    by (simp add: get_latest_game_data_version_def get_game_metadata_def new_requests_def
        example_respond dict_item_def transmitted_body_def dumps_def encode_def encode_char_def)
  show ?thesis
    using envelopes_carry_payload_key
        [of "GetEvents False" example_platform "SwgohComlink_init example_config" initial_state]
      envelopes_carry_payload_key
        [of GetLatestGameDataVersion example_platform "SwgohComlink_init example_config"
           initial_state]
      b v
    by simp
qed

text \<open>
  The claim as stated fails: the metadata fetch with no client specs sends the
  body \<^verbatim>\<open>{}\<close>, which has no \<^verbatim>\<open>payload\<close> key.
\<close>

theorem metadata_envelope_counterexample:
  "map req_json
     (new_requests (call example_platform (SwgohComlink_init example_config)
        (GetGameMetadata [] False)) initial_state) = [Some (JObject [])] \<and>
   map transmitted_body
     (new_requests (call example_platform (SwgohComlink_init example_config)
        (GetGameMetadata [] False)) initial_state) = [Some ''{}''] \<and>
   map has_payload_key
     (new_requests (call example_platform (SwgohComlink_init example_config)
        (GetGameMetadata [] False)) initial_state) = [False]"
  by (simp add: get_game_metadata_def new_requests_post transmitted_body_def dumps_def encode_def
      encode_char_def has_payload_key_def dict_keys_def)

section \<open>The signed and the transmitted body\<close>

text \<open>
  C2.  For a signed request with envelope \<open>JObject kvs\<close>, the bytes whose MD5
  digest goes into the signature are the compact serialisation of the envelope
  (separators \<^verbatim>\<open>,\<close> and \<^verbatim>\<open>:\<close>), and the body the session transmits is the
  default serialisation of the same envelope in the same key order (separators
  \<^verbatim>\<open>, \<close> and \<^verbatim>\<open>: \<close>).  The two are equal byte for byte exactly when the
  envelope is the empty mapping.
\<close>

theorem signed_and_transmitted_body:
  assumes "ACCESS_KEY cfg \<noteq> []" and "SECRET_KEY cfg \<noteq> []"
  shows "map req_headers
           (new_requests (post p (SwgohComlink_init cfg) u (Some endpoint) (Some (JObject kvs))) st) =
           [signed_headers p (SwgohComlink_init cfg) (time_ms p (clock_reads st)) (Some endpoint)
              (Some (JObject kvs))] \<and>
         signed_body (Some (JObject kvs)) = encode (dumps_compact (JObject kvs)) \<and>
         map transmitted_body
           (new_requests (post p (SwgohComlink_init cfg) u (Some endpoint) (Some (JObject kvs))) st) =
           [Some (encode (dumps (JObject kvs)))] \<and>
         (map transmitted_body
            (new_requests (post p (SwgohComlink_init cfg) u (Some endpoint) (Some (JObject kvs))) st) =
            [Some (signed_body (Some (JObject kvs)))]
          \<longleftrightarrow> kvs = [])"
  using assms
  by (simp add: new_requests_post headers_the_request signed_body_object transmitted_the_request
      object_bodies_differ)

theorem signed_and_transmitted_body_witness:
  "ACCESS_KEY example_config \<noteq> [] \<and> SECRET_KEY example_config \<noteq> [] \<and>
   signed_body (Some (JObject [(''payload'', JObject []), (''enums'', JBool False)])) =
     encode (dumps_compact (JObject [(''payload'', JObject []), (''enums'', JBool False)])) \<and>
   map transmitted_body
     (new_requests (post example_platform (SwgohComlink_init example_config) None (Some ''getEvents'')
        (Some (JObject [(''payload'', JObject []), (''enums'', JBool False)]))) initial_state) =
     [Some (encode (dumps (JObject [(''payload'', JObject []), (''enums'', JBool False)])))] \<and>
   map transmitted_body
     (new_requests (post example_platform (SwgohComlink_init example_config) None (Some ''getEvents'')
        (Some (JObject [(''payload'', JObject []), (''enums'', JBool False)]))) initial_state) \<noteq>
     [Some (signed_body (Some (JObject [(''payload'', JObject []), (''enums'', JBool False)])))]"
proof -
  have a: "ACCESS_KEY example_config \<noteq> []" and s: "SECRET_KEY example_config \<noteq> []"
    by simp_all
  have ne: "[(''payload'', JObject []), (''enums'', JBool False)] \<noteq> ([] :: (string \<times> json) list)"
    by simp
  note t = signed_and_transmitted_body
    [OF a s, of example_platform None "''getEvents''"
       "[(''payload'', JObject []), (''enums'', JBool False)]" initial_state]
  note c2 = t [THEN conjunct2, THEN conjunct1]
  note c3 = t [THEN conjunct2, THEN conjunct2, THEN conjunct1]
  note c4 = t [THEN conjunct2, THEN conjunct2, THEN conjunct2]
  have c5: "map transmitted_body
     (new_requests (post example_platform (SwgohComlink_init example_config) None (Some ''getEvents'')
        (Some (JObject [(''payload'', JObject []), (''enums'', JBool False)]))) initial_state) \<noteq>
     [Some (signed_body (Some (JObject [(''payload'', JObject []), (''enums'', JBool False)])))]"
    unfolding c4 by (rule ne)
  show ?thesis
    apply (intro conjI)
        apply (rule a)
       apply (rule s)
      apply (rule c2)
     apply (rule c3)
    apply (rule c5)
    done
qed

text \<open>
  The claim as stated fails: the request of \<^verbatim>\<open>get_events\<close> is signed over the
  compact text, and its transmitted body is another text.
\<close>

theorem signed_body_counterexample:
  "map req_headers
     (new_requests (get_events example_platform (SwgohComlink_init example_config) False)
        initial_state) =
     [signed_headers example_platform (SwgohComlink_init example_config) 7 (Some ''getEvents'')
        (Some (JObject [(''payload'', JObject []), (''enums'', JBool False)]))] \<and>
   map transmitted_body
     (new_requests (get_events example_platform (SwgohComlink_init example_config) False)
        initial_state) \<noteq>
     [Some (signed_body (Some (JObject [(''payload'', JObject []), (''enums'', JBool False)])))]"
  by (simp add: get_events_def new_requests_post headers_the_request transmitted_the_request
      signed_body_def payload_string_def dumps_def dumps_compact_def encode_Cons encode_char_def
      encode_basestring_def escape_char_def example_platform_def initial_state_def)

end
